theory Spec2Isabelle
  imports Main "HOL-Library.AList"
begin

section \<open>Values of the host language\<close>

text \<open>
  The wrapper is TypeScript. An optional property (\<^verbatim>\<open>field?: T\<close>) is an \<open>option\<close>:
  \<open>None\<close> is \<^verbatim>\<open>undefined\<close>. Strings are \<open>string\<close>. HTTP status codes, part numbers,
  lengths and dates are \<open>int\<close>; the numbers of the configuration, which the caller
  supplies and the wrapper compares and adds, are \<open>js_number\<close>.

  \<^verbatim>\<open>a || b\<close> yields \<open>b\<close> when \<open>a\<close> is falsy: for a string-or-undefined that is
  \<^verbatim>\<open>undefined\<close> and the empty string. \<^verbatim>\<open>a ?? b\<close> yields \<open>b\<close> only when \<open>a\<close> is
  \<^verbatim>\<open>undefined\<close>.
\<close>

definition truthy :: "string option \<Rightarrow> bool" where
  "truthy v = (case v of None \<Rightarrow> False | Some s \<Rightarrow> s \<noteq> [])"

definition js_or :: "string option \<Rightarrow> string option \<Rightarrow> string option" where
  "js_or a b = (if truthy a then a else b)"

definition js_or_str :: "string option \<Rightarrow> string \<Rightarrow> string" where
  "js_or_str a d = (case a of None \<Rightarrow> d | Some s \<Rightarrow> if s \<noteq> [] then s else d)"

definition nullish :: "'a option \<Rightarrow> 'a \<Rightarrow> 'a" where
  "nullish a d = (case a of None \<Rightarrow> d | Some v \<Rightarrow> v)"

text \<open>
  A \<^verbatim>\<open>number\<close> of the configuration: \<^verbatim>\<open>NaN\<close>, the two infinities, or an integer.
  Numbers with a fractional part and the sign of zero are outside this model. Not every
  integer is a double: those of magnitude below \<open>2 ^ 53\<close> are, and above that the
  doubles are \<open>spacing\<close> apart. \<open>round_to_double\<close> is the rounding of an exact integer
  result to the nearest double, ties to the even significand, overflow to infinity.
  \<^verbatim>\<open>a + b\<close>, \<^verbatim>\<open>a < b\<close> and \<^verbatim>\<open>a <= b\<close> follow: every comparison with \<^verbatim>\<open>NaN\<close> is false.
\<close>

datatype js_number = NaN | PosInfinity | NegInfinity | Num int

function spacing :: "nat \<Rightarrow> nat" where
  "spacing a = (if a < 2 ^ 53 then 1 else 2 * spacing (a div 2))"
  by pat_completeness auto
termination
  by (relation "measure id") auto

declare spacing.simps [simp del]

definition round_to_double :: "int \<Rightarrow> js_number" where
  "round_to_double x =
     (let a = nat \<bar>x\<bar>;
          q = spacing a;
          k = a div q;
          r = a mod q;
          k' = (if 2 * r < q then k else if q < 2 * r then k + 1
                else if even k then k else k + 1);
          m = k' * q
      in if 2 ^ 1024 \<le> m then (if x < 0 then NegInfinity else PosInfinity)
         else Num (if x < 0 then - int m else int m))"

fun js_add :: "js_number \<Rightarrow> js_number \<Rightarrow> js_number" where
  "js_add NaN y = NaN"
| "js_add x NaN = NaN"
| "js_add PosInfinity NegInfinity = NaN"
| "js_add NegInfinity PosInfinity = NaN"
| "js_add PosInfinity y = PosInfinity"
| "js_add NegInfinity y = NegInfinity"
| "js_add x PosInfinity = PosInfinity"
| "js_add x NegInfinity = NegInfinity"
| "js_add (Num a) (Num b) = round_to_double (a + b)"

fun js_less :: "js_number \<Rightarrow> js_number \<Rightarrow> bool" where
  "js_less NaN y = False"
| "js_less x NaN = False"
| "js_less PosInfinity y = False"
| "js_less x NegInfinity = False"
| "js_less NegInfinity y = True"
| "js_less x PosInfinity = True"
| "js_less (Num a) (Num b) = (a < b)"

fun js_le :: "js_number \<Rightarrow> js_number \<Rightarrow> bool" where
  "js_le NaN y = False"
| "js_le x NaN = False"
| "js_le NegInfinity y = True"
| "js_le x PosInfinity = True"
| "js_le PosInfinity y = False"
| "js_le x NegInfinity = False"
| "js_le (Num a) (Num b) = (a \<le> b)"

text \<open>Values stored in the context object of an error (\<^verbatim>\<open>Record<string, unknown>\<close>).\<close>

datatype jsval = JStr string | JNum js_number | JUndefined

type_synonym error_context = "(string \<times> jsval) list"

definition opt_str :: "string option \<Rightarrow> jsval" where
  "opt_str v = (case v of None \<Rightarrow> JUndefined | Some s \<Rightarrow> JStr s)"

section \<open>FastlyStorageError\<close>

text \<open>
  \<^verbatim>\<open>$metadata\<close> of an error of the storage client.
\<close>

record metadata =
  httpStatusCode :: "int option"
  requestId :: "string option"

text \<open>
  What a \<^verbatim>\<open>catch\<close> clause can receive: an error raised by the storage client (its
  \<^verbatim>\<open>name\<close>, \<^verbatim>\<open>message\<close> and optional \<^verbatim>\<open>$metadata\<close>), or a \<^verbatim>\<open>FastlyStorageError\<close>
  that the wrapper itself threw inside the \<^verbatim>\<open>try\<close> block. The fields of
  \<^verbatim>\<open>FastlyStorageError\<close> are those its constructor assigns; its \<^verbatim>\<open>name\<close> is the constant
  \<^verbatim>\<open>'FastlyStorageError'\<close> and it has no \<^verbatim>\<open>$metadata\<close>.
\<close>

datatype js_error =
    S3ServiceError string string "metadata option"
  | Thrown fastly_storage_error
and fastly_storage_error =
    FastlyStorageError (message: string) (code: string) (statusCode: "int option")
      (err_context: "error_context option") (cause: "js_error option")

fun error_name :: "js_error \<Rightarrow> string" where
  "error_name (S3ServiceError n m md) = n"
| "error_name (Thrown e) = ''FastlyStorageError''"

fun error_message :: "js_error \<Rightarrow> string" where
  "error_message (S3ServiceError n m md) = m"
| "error_message (Thrown e) = message e"

fun error_metadata :: "js_error \<Rightarrow> metadata option" where
  "error_metadata (S3ServiceError n m md) = md"
| "error_metadata (Thrown e) = None"

text \<open>\<^verbatim>\<open>s3Error.$metadata?.httpStatusCode\<close> and \<^verbatim>\<open>s3Error.$metadata?.requestId\<close>.\<close>

definition metadata_httpStatusCode :: "js_error \<Rightarrow> int option" where
  "metadata_httpStatusCode error =
     (case error_metadata error of None \<Rightarrow> None | Some md \<Rightarrow> httpStatusCode md)"

definition metadata_requestId :: "js_error \<Rightarrow> string option" where
  "metadata_requestId error =
     (case error_metadata error of None \<Rightarrow> None | Some md \<Rightarrow> requestId md)"

text \<open>
  \<^verbatim>\<open>FastlyStorageError.fromS3Error(error, context)\<close>. The context is the caller's context
  with \<^verbatim>\<open>requestId\<close> set (\<^verbatim>\<open>{...context, requestId: ...}\<close>).
\<close>

definition fromS3Error :: "js_error \<Rightarrow> error_context option \<Rightarrow> fastly_storage_error" where
  "fromS3Error error ctx =
     FastlyStorageError
       (if error_message error \<noteq> [] then error_message error else ''S3 operation failed'')
       (if metadata_httpStatusCode error = Some 404 then ''NOT_FOUND''
        else if error_name error \<noteq> [] then error_name error else ''UNKNOWN_ERROR'')
       (metadata_httpStatusCode error)
       (Some (AList.update ''requestId'' (opt_str (metadata_requestId error))
                (case ctx of None \<Rightarrow> [] | Some c \<Rightarrow> c)))
       (Some error)"

text \<open>
  \<^verbatim>\<open>isRetryable()\<close>. \<^verbatim>\<open>!this.statusCode\<close> holds for \<^verbatim>\<open>undefined\<close> and for \<open>0\<close>.
\<close>

definition isRetryable :: "fastly_storage_error \<Rightarrow> bool" where
  "isRetryable e =
     (case statusCode e of
        None \<Rightarrow> False
      | Some sc \<Rightarrow>
          if sc = 0 then False
          else if sc \<ge> 500 then True
          else if sc = 429 then True
          else if sc = 408 then True
          else if code e = ''ECONNRESET'' \<or> code e = ''ETIMEDOUT'' then True
          else False)"

section \<open>The storage client\<close>

text \<open>
  The wrapped S3 client is an external collaborator. A command carries the input the
  wrapper builds; \<^verbatim>\<open>client.send(command)\<close> either throws or returns a response object.
  A response is an object whose properties may be missing, whatever the command was.
  A \<^verbatim>\<open>Buffer\<close> is a list of bytes, a \<^verbatim>\<open>Date\<close> a number of milliseconds.
\<close>

type_synonym buffer = "nat list"
type_synonym date = int

text \<open>
  A readable stream, as \<^verbatim>\<open>streamToBuffer\<close> observes it: the chunks of its
  \<^verbatim>\<open>data\<close> events, then \<^verbatim>\<open>end\<close> (\<open>None\<close>) or \<^verbatim>\<open>error\<close>. A stream that emits neither is
  outside this model.
\<close>

datatype readable = Readable "buffer list" "js_error option"

fun streamToBuffer :: "readable \<Rightarrow> js_error + buffer" where
  "streamToBuffer (Readable chunks None) = Inr (concat chunks)"
| "streamToBuffer (Readable chunks (Some error)) = Inl error"

record BucketConfig =
  bc_acl :: "string option"
  bc_region :: "string option"

record UploadObjectOptions =
  contentType :: "string option"
  metadata_opt :: "(string \<times> string) list option"
  cacheControl :: "string option"
  contentDisposition :: "string option"
  contentEncoding :: "string option"
  acl :: "string option"
  serverSideEncryption :: "string option"
  storageClass :: "string option"

record GetObjectOptions =
  range :: "string option"
  ifModifiedSince :: "date option"
  ifUnmodifiedSince :: "date option"
  ifMatch :: "string option"
  ifNoneMatch :: "string option"

record UploadPart =
  partNumber :: int
  etag :: string

datatype s3_command =
    CreateBucketCommand string "string option" "string option"
  | DeleteBucketCommand string
  | ListBucketsCommand
  | HeadBucketCommand string
  | GetObjectCommand string string "GetObjectOptions option"
  | CreateMultipartUploadCommand string string "UploadObjectOptions option"
  | UploadPartCommand string string string int buffer
  | CompleteMultipartUploadCommand string string string "UploadPart list"
  | AbortMultipartUploadCommand string string string

record s3_bucket =
  Name :: "string option"
  CreationDate :: "date option"

record s3_response =
  Buckets :: "s3_bucket list option"
  Body :: "readable option"
  ContentType :: "string option"
  ContentLength :: "int option"
  ETag :: "string option"
  LastModified :: "date option"
  Metadata :: "(string \<times> string) list option"
  UploadId :: "string option"
  VersionId :: "string option"
  Location :: "string option"

type_synonym s3_send = "s3_command \<Rightarrow> js_error + s3_response"

text \<open>
  The \<^verbatim>\<open>catch\<close> clause shared by every operation: whatever the \<^verbatim>\<open>try\<close> block
  threw is passed to \<^verbatim>\<open>fromS3Error\<close> with the operation's context, and the result is
  thrown. This is the clause of \<^verbatim>\<open>BucketOperations\<close> and \<^verbatim>\<open>ObjectOperations\<close>, whose
  logger is taken to return.
\<close>

definition catch_fromS3Error :: "js_error + 'a \<Rightarrow> error_context \<Rightarrow> fastly_storage_error + 'a" where
  "catch_fromS3Error r ctx =
     (case r of Inl error \<Rightarrow> Inl (fromS3Error error (Some ctx)) | Inr v \<Rightarrow> Inr v)"

section \<open>BucketOperations\<close>

record BucketInfo =
  name :: "string option"
  creationDate :: "date option"

text \<open>
  \<^verbatim>\<open>createBucket\<close>: the command is built from the name as given and sent.
\<close>

definition createBucket_try :: "s3_send \<Rightarrow> string \<Rightarrow> BucketConfig option \<Rightarrow> js_error + unit" where
  "createBucket_try send nm options =
     (case send (CreateBucketCommand nm
                   (case options of None \<Rightarrow> None | Some opts \<Rightarrow> bc_acl opts)
                   (case options of None \<Rightarrow> None
                    | Some opts \<Rightarrow> if truthy (bc_region opts) then bc_region opts else None)) of
        Inl error \<Rightarrow> Inl error
      | Inr response \<Rightarrow> Inr ())"

definition createBucket :: "s3_send \<Rightarrow> string \<Rightarrow> BucketConfig option \<Rightarrow> fastly_storage_error + unit" where
  "createBucket send nm options =
     catch_fromS3Error (createBucket_try send nm options)
       [(''bucket'', JStr nm), (''operation'', JStr ''createBucket'')]"

definition deleteBucket :: "s3_send \<Rightarrow> string \<Rightarrow> fastly_storage_error + unit" where
  "deleteBucket send nm =
     catch_fromS3Error
       (case send (DeleteBucketCommand nm) of Inl error \<Rightarrow> Inl error | Inr response \<Rightarrow> Inr ())
       [(''bucket'', JStr nm), (''operation'', JStr ''deleteBucket'')]"

text \<open>
  \<^verbatim>\<open>listBuckets\<close>: the non-null assertions \<^verbatim>\<open>bucket.Name!\<close> and
  \<^verbatim>\<open>bucket.CreationDate!\<close> do nothing at run time, so a missing property stays missing.
\<close>

definition listBuckets :: "s3_send \<Rightarrow> fastly_storage_error + BucketInfo list" where
  "listBuckets send =
     catch_fromS3Error
       (case send ListBucketsCommand of
          Inl error \<Rightarrow> Inl error
        | Inr response \<Rightarrow>
            Inr (map (\<lambda>bucket. \<lparr>name = Name bucket, creationDate = CreationDate bucket\<rparr>)
                   (case Buckets response of None \<Rightarrow> [] | Some bs \<Rightarrow> bs)))
       [(''operation'', JStr ''listBuckets'')]"

text \<open>
  \<^verbatim>\<open>getBucketInfo\<close>: the existence check, the listing, the search and the
  \<^verbatim>\<open>throw\<close> of \<^verbatim>\<open>NOT_FOUND\<close> are all inside the \<^verbatim>\<open>try\<close> block.
\<close>

definition getBucketInfo_try :: "s3_send \<Rightarrow> string \<Rightarrow> js_error + BucketInfo" where
  "getBucketInfo_try send nm =
     (case send (HeadBucketCommand nm) of
        Inl error \<Rightarrow> Inl error
      | Inr response \<Rightarrow>
          (case listBuckets send of
             Inl error \<Rightarrow> Inl (Thrown error)
           | Inr buckets \<Rightarrow>
               (case find (\<lambda>b. name b = Some nm) buckets of
                  None \<Rightarrow>
                    Inl (Thrown (FastlyStorageError ''Bucket not found'' ''NOT_FOUND'' (Some 404)
                                   (Some [(''bucket'', JStr nm)]) None))
                | Some bucket \<Rightarrow> Inr bucket)))"

definition getBucketInfo :: "s3_send \<Rightarrow> string \<Rightarrow> fastly_storage_error + BucketInfo" where
  "getBucketInfo send nm =
     catch_fromS3Error (getBucketInfo_try send nm)
       [(''bucket'', JStr nm), (''operation'', JStr ''getBucketInfo'')]"

section \<open>ObjectOperations: downloads\<close>

record DownloadResult =
  dr_body :: buffer
  dr_contentType :: "string option"
  dr_contentLength :: int
  dr_etag :: string
  dr_lastModified :: date
  dr_metadata :: "(string \<times> string) list"

text \<open>
  \<^verbatim>\<open>getObject\<close>; \<open>now\<close> is the value of \<^verbatim>\<open>new Date()\<close>.
  \<^verbatim>\<open>response.ContentLength || body.length\<close> takes the length for a missing or zero
  \<^verbatim>\<open>ContentLength\<close>.
\<close>

definition getObject_try ::
  "s3_send \<Rightarrow> date \<Rightarrow> string \<Rightarrow> string \<Rightarrow> GetObjectOptions option \<Rightarrow> js_error + DownloadResult" where
  "getObject_try send now bucket key options =
     (case send (GetObjectCommand bucket key options) of
        Inl error \<Rightarrow> Inl error
      | Inr response \<Rightarrow>
          (case Body response of
             None \<Rightarrow>
               Inl (Thrown (FastlyStorageError ''Empty response body'' ''EMPTY_BODY'' None
                              (Some [(''bucket'', JStr bucket), (''key'', JStr key)]) None))
           | Some stream \<Rightarrow>
               (case streamToBuffer stream of
                  Inl error \<Rightarrow> Inl error
                | Inr body \<Rightarrow>
                    Inr \<lparr>dr_body = body,
                         dr_contentType = ContentType response,
                         dr_contentLength =
                           (case ContentLength response of
                              None \<Rightarrow> int (length body)
                            | Some n \<Rightarrow> if n \<noteq> 0 then n else int (length body)),
                         dr_etag = js_or_str (ETag response) [],
                         dr_lastModified = nullish (LastModified response) now,
                         dr_metadata = nullish (Metadata response) []\<rparr>)))"

definition getObject ::
  "s3_send \<Rightarrow> date \<Rightarrow> string \<Rightarrow> string \<Rightarrow> GetObjectOptions option
     \<Rightarrow> fastly_storage_error + DownloadResult" where
  "getObject send now bucket key options =
     catch_fromS3Error (getObject_try send now bucket key options)
       [(''bucket'', JStr bucket), (''key'', JStr key), (''operation'', JStr ''getObject'')]"

definition getObjectStream_try ::
  "s3_send \<Rightarrow> string \<Rightarrow> string \<Rightarrow> GetObjectOptions option \<Rightarrow> js_error + readable" where
  "getObjectStream_try send bucket key options =
     (case send (GetObjectCommand bucket key options) of
        Inl error \<Rightarrow> Inl error
      | Inr response \<Rightarrow>
          (case Body response of
             None \<Rightarrow>
               Inl (Thrown (FastlyStorageError ''Empty response body'' ''EMPTY_BODY'' None
                              (Some [(''bucket'', JStr bucket), (''key'', JStr key)]) None))
           | Some stream \<Rightarrow> Inr stream))"

definition getObjectStream ::
  "s3_send \<Rightarrow> string \<Rightarrow> string \<Rightarrow> GetObjectOptions option \<Rightarrow> fastly_storage_error + readable" where
  "getObjectStream send bucket key options =
     catch_fromS3Error (getObjectStream_try send bucket key options)
       [(''bucket'', JStr bucket), (''key'', JStr key), (''operation'', JStr ''getObjectStream'')]"

section \<open>The logger\<close>

text \<open>
  The logger is supplied by the caller (\<^verbatim>\<open>config.logger\<close>). A call of one of its four
  methods with a message and a \<^verbatim>\<open>meta\<close> object returns, or throws: a \<open>log_behaviour\<close>
  answers \<open>None\<close> when the call returns and \<open>Some error\<close> when it throws \<open>error\<close>.
  \<open>quiet\<close> is a logger that always returns, as the \<^verbatim>\<open>DefaultLogger\<close> does.

  \<^verbatim>\<open>MultipartOperations\<close> calls the logger after it has changed its \<^verbatim>\<open>uploads\<close> map, so
  its operations are modelled with their logger. In \<^verbatim>\<open>BucketOperations\<close> and
  \<^verbatim>\<open>ObjectOperations\<close>, which have no state, the logger is taken to return.
\<close>

datatype log_level = LogDebug | LogInfo | LogWarn | LogError

datatype log_val = MetaVal jsval | MetaErr js_error

type_synonym log_meta = "(string \<times> log_val) list"

type_synonym log_behaviour = "log_level \<Rightarrow> string \<Rightarrow> log_meta \<Rightarrow> js_error option"

definition quiet :: log_behaviour where
  "quiet level msg meta = None"

section \<open>MultipartOperations\<close>

record MultipartUploadState =
  uploadId :: string
  bucket :: string
  key :: string

record MultipartUploadResult =
  mur_uploadId :: string
  mur_bucket :: string
  mur_key :: string

record UploadPartResult =
  upr_partNumber :: int
  upr_etag :: string

record UploadResult =
  ur_etag :: "string option"
  ur_versionId :: "string option"
  ur_location :: "string option"

text \<open>
  The private \<^verbatim>\<open>uploads\<close> map of the class is the only local state of the operations.
  Every operation takes the map and returns it, updated or not, with its result. What an
  operation throws is a \<open>js_error\<close>: the \<^verbatim>\<open>FastlyStorageError\<close> it built, or whatever the
  logger threw inside the \<^verbatim>\<open>catch\<close> clause.
\<close>

type_synonym uploads_map = "string \<rightharpoonup> MultipartUploadState"

text \<open>
  The \<^verbatim>\<open>catch\<close> clause of a multipart operation: \<^verbatim>\<open>this.logger.error(msg, {..., error})\<close>,
  then \<^verbatim>\<open>throw FastlyStorageError.fromS3Error(error, ctx)\<close>. The map stays as the
  \<^verbatim>\<open>try\<close> block left it.
\<close>

definition catch_logged ::
  "log_behaviour \<Rightarrow> string \<Rightarrow> log_meta \<Rightarrow> error_context \<Rightarrow> (js_error + 'a) \<times> uploads_map
     \<Rightarrow> (js_error + 'a) \<times> uploads_map" where
  "catch_logged lg msg meta ctx r =
     (case fst r of
        Inr v \<Rightarrow> r
      | Inl error \<Rightarrow>
          (case lg LogError msg (meta @ [(''error'', MetaErr error)]) of
             Some thrown \<Rightarrow> (Inl thrown, snd r)
           | None \<Rightarrow> (Inl (Thrown (fromS3Error error (Some ctx))), snd r)))"

text \<open>
  \<^verbatim>\<open>createMultipartUpload\<close>: \<^verbatim>\<open>!response.UploadId\<close> holds for a missing and for an
  empty upload id; the session is stored after that check, and the logger is called
  after the session is stored.
\<close>

definition no_upload_id :: "string \<Rightarrow> string \<Rightarrow> fastly_storage_error" where
  "no_upload_id bkt ky =
     FastlyStorageError ''No upload ID returned'' ''NO_UPLOAD_ID'' None
       (Some [(''bucket'', JStr bkt), (''key'', JStr ky)]) None"

definition createMultipartUpload_try ::
  "log_behaviour \<Rightarrow> s3_send \<Rightarrow> string \<Rightarrow> string \<Rightarrow> UploadObjectOptions option \<Rightarrow> uploads_map
     \<Rightarrow> (js_error + MultipartUploadResult) \<times> uploads_map" where
  "createMultipartUpload_try lg send bkt ky options uploads =
     (case lg LogInfo ''Creating multipart upload''
             [(''bucket'', MetaVal (JStr bkt)), (''key'', MetaVal (JStr ky))] of
        Some thrown \<Rightarrow> (Inl thrown, uploads)
      | None \<Rightarrow>
          (case send (CreateMultipartUploadCommand bkt ky options) of
             Inl error \<Rightarrow> (Inl error, uploads)
           | Inr response \<Rightarrow>
               (case UploadId response of
                  None \<Rightarrow> (Inl (Thrown (no_upload_id bkt ky)), uploads)
                | Some uid \<Rightarrow>
                    if uid = [] then (Inl (Thrown (no_upload_id bkt ky)), uploads)
                    else
                      (let uploads' = uploads(uid \<mapsto> \<lparr>uploadId = uid, bucket = bkt, key = ky\<rparr>)
                       in case lg LogInfo ''Multipart upload created successfully''
                                 [(''bucket'', MetaVal (JStr bkt)), (''key'', MetaVal (JStr ky)),
                                  (''uploadId'', MetaVal (JStr uid))] of
                            Some thrown \<Rightarrow> (Inl thrown, uploads')
                          | None \<Rightarrow>
                              (Inr \<lparr>mur_uploadId = uid, mur_bucket = bkt, mur_key = ky\<rparr>,
                               uploads')))))"

definition createMultipartUpload ::
  "log_behaviour \<Rightarrow> s3_send \<Rightarrow> string \<Rightarrow> string \<Rightarrow> UploadObjectOptions option \<Rightarrow> uploads_map
     \<Rightarrow> (js_error + MultipartUploadResult) \<times> uploads_map" where
  "createMultipartUpload lg send bkt ky options uploads =
     catch_logged lg ''Failed to create multipart upload''
       [(''bucket'', MetaVal (JStr bkt)), (''key'', MetaVal (JStr ky))]
       [(''bucket'', JStr bkt), (''key'', JStr ky), (''operation'', JStr ''createMultipartUpload'')]
       (createMultipartUpload_try lg send bkt ky options uploads)"

text \<open>
  The error of an untracked upload id, thrown before the \<^verbatim>\<open>try\<close> block of
  \<^verbatim>\<open>uploadPart\<close>, \<^verbatim>\<open>completeMultipartUpload\<close> and \<^verbatim>\<open>abortMultipartUpload\<close>, and before
  any call of the logger.
\<close>

definition upload_not_found :: "string \<Rightarrow> fastly_storage_error" where
  "upload_not_found uid =
     FastlyStorageError ''Upload ID not found'' ''UPLOAD_NOT_FOUND'' None
       (Some [(''uploadId'', JStr uid)]) None"

definition no_etag :: "string \<Rightarrow> int \<Rightarrow> fastly_storage_error" where
  "no_etag uid pn =
     FastlyStorageError ''No ETag returned'' ''NO_ETAG'' None
       (Some [(''uploadId'', JStr uid), (''partNumber'', JNum (Num pn))]) None"

definition uploadPart_try ::
  "log_behaviour \<Rightarrow> s3_send \<Rightarrow> MultipartUploadState \<Rightarrow> string \<Rightarrow> int \<Rightarrow> buffer \<Rightarrow> uploads_map
     \<Rightarrow> (js_error + UploadPartResult) \<times> uploads_map" where
  "uploadPart_try lg send uploadState uid pn data uploads =
     (case lg LogDebug ''Uploading part''
             [(''uploadId'', MetaVal (JStr uid)), (''partNumber'', MetaVal (JNum (Num pn))),
              (''size'', MetaVal (JNum (Num (int (length data)))))] of
        Some thrown \<Rightarrow> (Inl thrown, uploads)
      | None \<Rightarrow>
          (case send (UploadPartCommand (bucket uploadState) (key uploadState) uid pn data) of
             Inl error \<Rightarrow> (Inl error, uploads)
           | Inr response \<Rightarrow>
               (case ETag response of
                  None \<Rightarrow> (Inl (Thrown (no_etag uid pn)), uploads)
                | Some tag \<Rightarrow>
                    if tag = [] then (Inl (Thrown (no_etag uid pn)), uploads)
                    else
                      (case lg LogDebug ''Part uploaded successfully''
                              [(''uploadId'', MetaVal (JStr uid)),
                               (''partNumber'', MetaVal (JNum (Num pn))),
                               (''etag'', MetaVal (JStr tag))] of
                         Some thrown \<Rightarrow> (Inl thrown, uploads)
                       | None \<Rightarrow> (Inr \<lparr>upr_partNumber = pn, upr_etag = tag\<rparr>, uploads)))))"

definition uploadPart ::
  "log_behaviour \<Rightarrow> s3_send \<Rightarrow> string \<Rightarrow> int \<Rightarrow> buffer \<Rightarrow> uploads_map
     \<Rightarrow> (js_error + UploadPartResult) \<times> uploads_map" where
  "uploadPart lg send uid pn data uploads =
     (case uploads uid of
        None \<Rightarrow> (Inl (Thrown (upload_not_found uid)), uploads)
      | Some uploadState \<Rightarrow>
          catch_logged lg ''Failed to upload part''
            [(''uploadId'', MetaVal (JStr uid)), (''partNumber'', MetaVal (JNum (Num pn)))]
            [(''uploadId'', JStr uid), (''partNumber'', JNum (Num pn)),
             (''operation'', JStr ''uploadPart'')]
            (uploadPart_try lg send uploadState uid pn data uploads))"

text \<open>
  \<^verbatim>\<open>completeMultipartUpload\<close>: \<^verbatim>\<open>this.uploads.delete(uploadId)\<close> follows the
  \<^verbatim>\<open>await\<close> of the backend's answer, and the logger is called after the deletion.
\<close>

definition completeMultipartUpload_try ::
  "log_behaviour \<Rightarrow> s3_send \<Rightarrow> MultipartUploadState \<Rightarrow> string \<Rightarrow> UploadPart list \<Rightarrow> uploads_map
     \<Rightarrow> (js_error + UploadResult) \<times> uploads_map" where
  "completeMultipartUpload_try lg send uploadState uid parts uploads =
     (case lg LogInfo ''Completing multipart upload''
             [(''uploadId'', MetaVal (JStr uid)),
              (''partCount'', MetaVal (JNum (Num (int (length parts)))))] of
        Some thrown \<Rightarrow> (Inl thrown, uploads)
      | None \<Rightarrow>
          (case send (CompleteMultipartUploadCommand (bucket uploadState) (key uploadState) uid
                        (map (\<lambda>part. \<lparr>partNumber = partNumber part, etag = etag part\<rparr>) parts)) of
             Inl error \<Rightarrow> (Inl error, uploads)
           | Inr response \<Rightarrow>
               (let uploads' = uploads(uid := None)
                in case lg LogInfo ''Multipart upload completed successfully''
                          [(''uploadId'', MetaVal (JStr uid)),
                           (''location'', MetaVal (opt_str (Location response)))] of
                     Some thrown \<Rightarrow> (Inl thrown, uploads')
                   | None \<Rightarrow>
                       (Inr \<lparr>ur_etag = ETag response, ur_versionId = VersionId response,
                             ur_location = Location response\<rparr>,
                        uploads'))))"

definition completeMultipartUpload ::
  "log_behaviour \<Rightarrow> s3_send \<Rightarrow> string \<Rightarrow> UploadPart list \<Rightarrow> uploads_map
     \<Rightarrow> (js_error + UploadResult) \<times> uploads_map" where
  "completeMultipartUpload lg send uid parts uploads =
     (case uploads uid of
        None \<Rightarrow> (Inl (Thrown (upload_not_found uid)), uploads)
      | Some uploadState \<Rightarrow>
          catch_logged lg ''Failed to complete multipart upload''
            [(''uploadId'', MetaVal (JStr uid))]
            [(''uploadId'', JStr uid), (''operation'', JStr ''completeMultipartUpload'')]
            (completeMultipartUpload_try lg send uploadState uid parts uploads))"

definition abortMultipartUpload_try ::
  "log_behaviour \<Rightarrow> s3_send \<Rightarrow> MultipartUploadState \<Rightarrow> string \<Rightarrow> uploads_map
     \<Rightarrow> (js_error + unit) \<times> uploads_map" where
  "abortMultipartUpload_try lg send uploadState uid uploads =
     (case lg LogInfo ''Aborting multipart upload'' [(''uploadId'', MetaVal (JStr uid))] of
        Some thrown \<Rightarrow> (Inl thrown, uploads)
      | None \<Rightarrow>
          (case send (AbortMultipartUploadCommand (bucket uploadState) (key uploadState) uid) of
             Inl error \<Rightarrow> (Inl error, uploads)
           | Inr response \<Rightarrow>
               (let uploads' = uploads(uid := None)
                in case lg LogInfo ''Multipart upload aborted successfully''
                          [(''uploadId'', MetaVal (JStr uid))] of
                     Some thrown \<Rightarrow> (Inl thrown, uploads')
                   | None \<Rightarrow> (Inr (), uploads'))))"

definition abortMultipartUpload ::
  "log_behaviour \<Rightarrow> s3_send \<Rightarrow> string \<Rightarrow> uploads_map \<Rightarrow> (js_error + unit) \<times> uploads_map" where
  "abortMultipartUpload lg send uid uploads =
     (case uploads uid of
        None \<Rightarrow> (Inl (Thrown (upload_not_found uid)), uploads)
      | Some uploadState \<Rightarrow>
          catch_logged lg ''Failed to abort multipart upload''
            [(''uploadId'', MetaVal (JStr uid))]
            [(''uploadId'', JStr uid), (''operation'', JStr ''abortMultipartUpload'')]
            (abortMultipartUpload_try lg send uploadState uid uploads))"

section \<open>Validation\<close>

text \<open>
  \<^verbatim>\<open>isValidUrl\<close> asks the platform's \<^verbatim>\<open>URL\<close> constructor, which is not part of this
  repository: the parser is the parameter \<open>parses\<close>. The two numeric checks are
  \<^verbatim>\<open>config.maxRetries < 0\<close> and \<^verbatim>\<open>config.timeout <= 0\<close>.
\<close>

definition isValidUrl :: "(string \<Rightarrow> bool) \<Rightarrow> string \<Rightarrow> bool" where
  "isValidUrl parses url = parses url"

definition invalid_config :: "string \<Rightarrow> error_context \<Rightarrow> fastly_storage_error" where
  "invalid_config msg ctx = FastlyStorageError msg ''INVALID_CONFIG'' None (Some ctx) None"

record RetryPolicy =
  rp_maxRetries :: js_number
  retryDelay :: js_number
  retryDelayMultiplier :: js_number
  maxRetryDelay :: "js_number option"
  rp_isRetryable :: "(js_error \<Rightarrow> bool) option"

datatype logger = DefaultLogger | CustomLogger string

text \<open>\<^verbatim>\<open>FastlyStorageConfig\<close>, every field optional, and \<^verbatim>\<open>Required<FastlyStorageConfig>\<close>.\<close>

record FastlyStorageConfig =
  cfg_endpoint :: "string option"
  cfg_accessKeyId :: "string option"
  cfg_secretAccessKey :: "string option"
  cfg_region :: "string option"
  cfg_maxRetries :: "js_number option"
  cfg_timeout :: "js_number option"
  cfg_logger :: "logger option"
  cfg_retryPolicy :: "RetryPolicy option"
  cfg_forcePathStyle :: "bool option"

record RequiredConfig =
  endpoint :: string
  accessKeyId :: string
  secretAccessKey :: string
  region :: string
  maxRetries :: js_number
  timeout :: js_number
  logger :: logger
  retryPolicy :: RetryPolicy
  forcePathStyle :: bool

definition validateConfig :: "(string \<Rightarrow> bool) \<Rightarrow> RequiredConfig \<Rightarrow> fastly_storage_error + unit" where
  "validateConfig parses config =
     (if endpoint config = [] then
        Inl (invalid_config
          ''Endpoint is required. Set FASTLY_ENDPOINT environment variable or provide in config.''
          [(''field'', JStr ''endpoint'')])
      else if accessKeyId config = [] then
        Inl (invalid_config
          ''Access Key ID is required. Set FASTLY_ACCESS_KEY_ID environment variable or provide in config.''
          [(''field'', JStr ''accessKeyId'')])
      else if secretAccessKey config = [] then
        Inl (invalid_config
          ''Secret Access Key is required. Set FASTLY_SECRET_ACCESS_KEY environment variable or provide in config.''
          [(''field'', JStr ''secretAccessKey'')])
      else if \<not> isValidUrl parses (endpoint config) then
        Inl (invalid_config ''Invalid endpoint URL''
          [(''field'', JStr ''endpoint''), (''value'', JStr (endpoint config))])
      else if js_less (maxRetries config) (Num 0) then
        Inl (invalid_config ''maxRetries must be non-negative''
          [(''field'', JStr ''maxRetries''), (''value'', JNum (maxRetries config))])
      else if js_le (timeout config) (Num 0) then
        Inl (invalid_config ''timeout must be positive''
          [(''field'', JStr ''timeout''), (''value'', JNum (timeout config))])
      else Inr ())"

text \<open>
  \<^verbatim>\<open>validateBucketName\<close>. The pattern \<^verbatim>\<open>^[a-z0-9][a-z0-9.-]*[a-z0-9]$\<close> asks for a first
  and a last character in \<^verbatim>\<open>[a-z0-9]\<close>, at two different positions, and for
  \<^verbatim>\<open>[a-z0-9.-]\<close> between them.
\<close>

definition lower_alnum :: "char \<Rightarrow> bool" where
  "lower_alnum c = (c \<in> set ''abcdefghijklmnopqrstuvwxyz0123456789'')"

definition bucket_char :: "char \<Rightarrow> bool" where
  "bucket_char c = (lower_alnum c \<or> c = CHR ''.'' \<or> c = CHR ''-'')"

definition bucket_name_pattern :: "string \<Rightarrow> bool" where
  "bucket_name_pattern s =
     (2 \<le> length s \<and> lower_alnum (hd s) \<and> list_all bucket_char (butlast (tl s))
      \<and> lower_alnum (last s))"

fun consecutive_dots :: "string \<Rightarrow> bool" where
  "consecutive_dots (a # b # rest) =
     ((a = CHR ''.'' \<and> b = CHR ''.'') \<or> consecutive_dots (b # rest))"
| "consecutive_dots [a] = False"
| "consecutive_dots [] = False"

definition invalid_bucket_name :: "string \<Rightarrow> error_context option \<Rightarrow> fastly_storage_error" where
  "invalid_bucket_name msg ctx = FastlyStorageError msg ''INVALID_BUCKET_NAME'' None ctx None"

definition validateBucketName :: "string \<Rightarrow> fastly_storage_error + unit" where
  "validateBucketName nm =
     (if nm = [] then Inl (invalid_bucket_name ''Bucket name is required'' None)
      else if length nm < 3 \<or> length nm > 63 then
        Inl (invalid_bucket_name ''Bucket name must be between 3 and 63 characters''
               (Some [(''name'', JStr nm)]))
      else if \<not> bucket_name_pattern nm then
        Inl (invalid_bucket_name
               ''Bucket name must start and end with a letter or number, and contain only lowercase letters, numbers, dots, and hyphens''
               (Some [(''name'', JStr nm)]))
      else if consecutive_dots nm then
        Inl (invalid_bucket_name ''Bucket name cannot contain consecutive dots''
               (Some [(''name'', JStr nm)]))
      else Inr ())"

section \<open>The client facade\<close>

text \<open>
  \<^verbatim>\<open>_mergeConfig\<close>; \<open>env\<close> is \<^verbatim>\<open>process.env\<close>. The four string fields are joined with
  \<^verbatim>\<open>||\<close>, the numbers and the flag with \<^verbatim>\<open>??\<close>, which keeps every number, \<^verbatim>\<open>NaN\<close>
  and 0 included; a logger and a retry policy are objects, which are never falsy.
\<close>

definition default_retryPolicy :: RetryPolicy where
  "default_retryPolicy =
     \<lparr>rp_maxRetries = Num 3, retryDelay = Num 1000, retryDelayMultiplier = Num 2,
      maxRetryDelay = None, rp_isRetryable = None\<rparr>"

definition mergeConfig :: "(string \<rightharpoonup> string) \<Rightarrow> FastlyStorageConfig \<Rightarrow> RequiredConfig" where
  "mergeConfig env config =
     \<lparr>endpoint = js_or_str (js_or (cfg_endpoint config) (env ''FASTLY_ENDPOINT'')) [],
      accessKeyId = js_or_str (js_or (cfg_accessKeyId config) (env ''FASTLY_ACCESS_KEY_ID'')) [],
      secretAccessKey =
        js_or_str (js_or (cfg_secretAccessKey config) (env ''FASTLY_SECRET_ACCESS_KEY'')) [],
      region = js_or_str (js_or (cfg_region config) (env ''FASTLY_REGION'')) ''us-east-1'',
      maxRetries = nullish (cfg_maxRetries config) (Num 3),
      timeout = nullish (cfg_timeout config) (Num 30000),
      logger = nullish (cfg_logger config) DefaultLogger,
      retryPolicy = nullish (cfg_retryPolicy config) default_retryPolicy,
      forcePathStyle = nullish (cfg_forcePathStyle config) True\<rparr>"

record Credentials =
  cred_accessKeyId :: string
  cred_secretAccessKey :: string

record S3ClientConfig =
  s3_endpoint :: string
  s3_region :: string
  credentials :: Credentials
  s3_forcePathStyle :: bool
  maxAttempts :: js_number
  requestTimeout :: js_number

text \<open>
  \<^verbatim>\<open>_initializeS3Client\<close>. Creating a storage client is an effect: \<open>created\<close> lists the
  configurations of the storage clients instantiated so far, and \<^verbatim>\<open>new S3Client\<close>, which
  is taken to succeed, adds one.
\<close>

definition initializeS3Client ::
  "RequiredConfig \<Rightarrow> S3ClientConfig list \<Rightarrow> S3ClientConfig \<times> S3ClientConfig list" where
  "initializeS3Client config created =
     (let clientConfig =
        \<lparr>s3_endpoint = endpoint config,
         s3_region = region config,
         credentials = \<lparr>cred_accessKeyId = accessKeyId config,
                         cred_secretAccessKey = secretAccessKey config\<rparr>,
         s3_forcePathStyle = forcePathStyle config,
         maxAttempts = js_add (maxRetries config) (Num 1),
         requestTimeout = timeout config\<rparr>
      in (clientConfig, created @ [clientConfig]))"

record FastlyStorageClient =
  client_s3Client :: S3ClientConfig
  client_config :: RequiredConfig
  client_logger :: logger
  client_uploads :: uploads_map

definition empty_config :: FastlyStorageConfig where
  "empty_config =
     \<lparr>cfg_endpoint = None, cfg_accessKeyId = None, cfg_secretAccessKey = None,
      cfg_region = None, cfg_maxRetries = None, cfg_timeout = None, cfg_logger = None,
      cfg_retryPolicy = None, cfg_forcePathStyle = None\<rparr>"

text \<open>
  The constructor; an omitted argument is \<^verbatim>\<open>{}\<close>. \<^verbatim>\<open>validateConfig\<close> runs before
  \<^verbatim>\<open>_initializeS3Client\<close>, and what it throws leaves the constructor.
\<close>

definition new_FastlyStorageClient ::
  "(string \<rightharpoonup> string) \<Rightarrow> (string \<Rightarrow> bool) \<Rightarrow> FastlyStorageConfig option \<Rightarrow> S3ClientConfig list
     \<Rightarrow> (fastly_storage_error + FastlyStorageClient) \<times> S3ClientConfig list" where
  "new_FastlyStorageClient env parses arg created =
     (let cfg = mergeConfig env (nullish arg empty_config) in
      case validateConfig parses cfg of
        Inl error \<Rightarrow> (Inl error, created)
      | Inr ok \<Rightarrow>
          (let (s3, created') = initializeS3Client cfg created in
             (Inr \<lparr>client_s3Client = s3, client_config = cfg, client_logger = logger cfg,
                   client_uploads = Map.empty\<rparr>,
              created')))"

section \<open>Histories of multipart calls\<close>

text \<open>
  A client object lives through a sequence of calls, each answered by the backend and by
  the logger in its own way. \<open>mp_run\<close> is the \<^verbatim>\<open>uploads\<close> map after such a sequence,
  \<open>returned_ids\<close> the upload ids that \<^verbatim>\<open>createMultipartUpload\<close> has returned to the
  caller during it, and \<open>issued_ids\<close> the upload ids that the backend gives in answer to
  the \<^verbatim>\<open>CreateMultipartUpload\<close> commands of the sequence.
\<close>

datatype mp_call =
    CreateCall log_behaviour s3_send string string "UploadObjectOptions option"
  | PartCall log_behaviour s3_send string int buffer
  | CompleteCall log_behaviour s3_send string "UploadPart list"
  | AbortCall log_behaviour s3_send string


fun mp_step :: "mp_call \<Rightarrow> uploads_map \<Rightarrow> uploads_map" where
  "mp_step (CreateCall lg send bkt ky options) uploads =
     snd (createMultipartUpload lg send bkt ky options uploads)"
| "mp_step (PartCall lg send uid pn data) uploads = snd (uploadPart lg send uid pn data uploads)"
| "mp_step (CompleteCall lg send uid parts) uploads =
     snd (completeMultipartUpload lg send uid parts uploads)"
| "mp_step (AbortCall lg send uid) uploads = snd (abortMultipartUpload lg send uid uploads)"


fun issued_id :: "mp_call \<Rightarrow> string option" where
  "issued_id (CreateCall lg send bkt ky options) =
     (case send (CreateMultipartUploadCommand bkt ky options) of
        Inl error \<Rightarrow> None
      | Inr response \<Rightarrow> UploadId response)"
| "issued_id (PartCall lg send uid pn data) = None"
| "issued_id (CompleteCall lg send uid parts) = None"
| "issued_id (AbortCall lg send uid) = None"

fun mp_run :: "mp_call list \<Rightarrow> uploads_map \<Rightarrow> uploads_map" where
  "mp_run [] uploads = uploads"
| "mp_run (c # cs) uploads = mp_run cs (mp_step c uploads)"


fun issued_ids :: "mp_call list \<Rightarrow> string set" where
  "issued_ids [] = {}"
| "issued_ids (c # cs) = set_option (issued_id c) \<union> issued_ids cs"

section \<open>The configuration contract as worded\<close>

text \<open>
  The resolution rule read literally: an explicit field that is present wins, then an
  environment variable that is set, then the default. \<open>pick_nonempty\<close> is the same rule
  with "present" and "set" read as "present and not the empty string".
\<close>

definition pick_present :: "'a option \<Rightarrow> 'a option \<Rightarrow> 'a \<Rightarrow> 'a" where
  "pick_present explicit from_env dflt =
     (case explicit of
        Some v \<Rightarrow> v
      | None \<Rightarrow> (case from_env of Some v \<Rightarrow> v | None \<Rightarrow> dflt))"

definition pick_nonempty :: "string option \<Rightarrow> string option \<Rightarrow> string \<Rightarrow> string" where
  "pick_nonempty explicit from_env dflt =
     (case explicit of
        Some (c # cs) \<Rightarrow> c # cs
      | _ \<Rightarrow> (case from_env of Some (c # cs) \<Rightarrow> c # cs | _ \<Rightarrow> dflt))"

definition mergeConfig_as_worded :: "(string \<rightharpoonup> string) \<Rightarrow> FastlyStorageConfig \<Rightarrow> RequiredConfig" where
  "mergeConfig_as_worded env config =
     \<lparr>endpoint = pick_present (cfg_endpoint config) (env ''FASTLY_ENDPOINT'') [],
      accessKeyId = pick_present (cfg_accessKeyId config) (env ''FASTLY_ACCESS_KEY_ID'') [],
      secretAccessKey =
        pick_present (cfg_secretAccessKey config) (env ''FASTLY_SECRET_ACCESS_KEY'') [],
      region = pick_present (cfg_region config) (env ''FASTLY_REGION'') ''us-east-1'',
      maxRetries = pick_present (cfg_maxRetries config) None (Num 3),
      timeout = pick_present (cfg_timeout config) None (Num 30000),
      logger = pick_present (cfg_logger config) None DefaultLogger,
      retryPolicy = pick_present (cfg_retryPolicy config) None
        \<lparr>rp_maxRetries = Num 3, retryDelay = Num 1000, retryDelayMultiplier = Num 2,
         maxRetryDelay = None, rp_isRetryable = None\<rparr>,
      forcePathStyle = pick_present (cfg_forcePathStyle config) None True\<rparr>"

section \<open>Example inputs\<close>

definition no_fields :: s3_response where
  "no_fields =
     \<lparr>Buckets = None, Body = None, ContentType = None, ContentLength = None, ETag = None,
      LastModified = None, Metadata = None, UploadId = None, VersionId = None, Location = None\<rparr>"

definition accepting :: s3_send where
  "accepting command = Inr no_fields"

definition refusing :: s3_send where
  "refusing command =
     Inl (S3ServiceError ''InternalError'' ''We encountered an internal error''
            (Some \<lparr>httpStatusCode = Some 500, requestId = Some ''r1''\<rparr>))"

definition session1 :: uploads_map where
  "session1 = [''u1'' \<mapsto> \<lparr>uploadId = ''u1'', bucket = ''valid-bucket'', key = ''f.bin''\<rparr>]"

text \<open>
  A backend on which the bucket exists for \<^verbatim>\<open>HeadBucket\<close> while the listing shows
  another bucket only.
\<close>

fun listing_other :: s3_send where
  "listing_other ListBucketsCommand =
     Inr (no_fields\<lparr>Buckets := Some [\<lparr>Name = Some ''other-bucket'', CreationDate = Some 0\<rparr>]\<rparr>)"
| "listing_other command = Inr no_fields"

text \<open>
  The code and the HTTP status of the \<^verbatim>\<open>FastlyStorageError\<close> an operation raised, if it
  raised one: \<open>raised\<close> for the operations that throw nothing else, \<open>raised_thrown\<close> for
  the multipart operations.
\<close>

definition raised :: "fastly_storage_error + 'a \<Rightarrow> (string \<times> int option) option" where
  "raised r = (case r of Inl e \<Rightarrow> Some (code e, statusCode e) | Inr v \<Rightarrow> None)"

fun raised_thrown :: "js_error + 'a \<Rightarrow> (string \<times> int option) option" where
  "raised_thrown (Inl (Thrown e)) = Some (code e, statusCode e)"
| "raised_thrown (Inl (S3ServiceError n m md)) = None"
| "raised_thrown (Inr v) = None"

text \<open>A backend that issues the upload id \<^verbatim>\<open>u1\<close> and an ETag for every command.\<close>

definition issuing :: s3_send where
  "issuing command = Inr (no_fields\<lparr>ETag := Some ''etag-1'', UploadId := Some ''u1''\<rparr>)"

text \<open>A backend that issues the upload id \<^verbatim>\<open>u2\<close> for every command.\<close>

definition issuing_other :: s3_send where
  "issuing_other command = Inr (no_fields\<lparr>ETag := Some ''etag-2'', UploadId := Some ''u2''\<rparr>)"

text \<open>
  A logger that returns for the first message of an operation and throws on the message
  that reports its success, as a logger does whose sink has closed in between.
\<close>

definition failing_on_success :: log_behaviour where
  "failing_on_success level msg meta =
     (if msg \<in> {''Multipart upload created successfully'',
                 ''Multipart upload completed successfully'',
                 ''Multipart upload aborted successfully''}
      then Some (S3ServiceError ''Error'' ''write after end'' None) else None)"

definition minimal_config :: FastlyStorageConfig where
  "minimal_config =
     empty_config\<lparr>cfg_endpoint := Some ''https://x'', cfg_accessKeyId := Some ''k'',
                  cfg_secretAccessKey := Some ''s''\<rparr>"

section \<open>Error normalisation\<close>

text \<open>
  The codes of this development are the literal strings of the source: \<^verbatim>\<open>NOT_FOUND\<close>,
  \<^verbatim>\<open>EMPTY_BODY\<close>, \<^verbatim>\<open>NO_UPLOAD_ID\<close>, \<^verbatim>\<open>NO_ETAG\<close>, \<^verbatim>\<open>UPLOAD_NOT_FOUND\<close>,
  \<^verbatim>\<open>INVALID_CONFIG\<close> and \<^verbatim>\<open>INVALID_BUCKET_NAME\<close>.

  A \<^verbatim>\<open>FastlyStorageError\<close> thrown inside a \<^verbatim>\<open>try\<close> block reaches the \<^verbatim>\<open>catch\<close> clause of
  the same operation. It has no \<^verbatim>\<open>$metadata\<close>, so \<^verbatim>\<open>fromS3Error\<close> gives the new error the
  code \<^verbatim>\<open>FastlyStorageError\<close> (the \<^verbatim>\<open>name\<close> of the caught error) and no status; the
  original error survives as the \<^verbatim>\<open>cause\<close> only.
\<close>

lemma fromS3Error_of_thrown:
  "fromS3Error (Thrown e) ctx =
     FastlyStorageError (if message e \<noteq> [] then message e else ''S3 operation failed'')
       ''FastlyStorageError'' None
       (Some (AList.update ''requestId'' JUndefined (case ctx of None \<Rightarrow> [] | Some c \<Rightarrow> c)))
       (Some (Thrown e))"
  by (simp add: fromS3Error_def metadata_httpStatusCode_def metadata_requestId_def opt_str_def)

lemma raised_catch_thrown:
  "raised (catch_fromS3Error (Inl (Thrown e)) ctx) = Some (''FastlyStorageError'', None)"
  by (simp add: raised_def catch_fromS3Error_def fromS3Error_of_thrown)

lemma fromS3Error_404:
  "metadata_httpStatusCode error = Some 404 \<Longrightarrow>
     code (fromS3Error error ctx) = ''NOT_FOUND'' \<and> statusCode (fromS3Error error ctx) = Some 404"
  by (simp add: fromS3Error_def)

lemma getBucketInfo_absent:
  assumes "send (HeadBucketCommand nm) = Inr response"
    and "listBuckets send = Inr buckets"
    and "find (\<lambda>b. name b = Some nm) buckets = None"
  shows "raised (getBucketInfo send nm) = Some (''FastlyStorageError'', None)"
  using assms by (simp add: getBucketInfo_def getBucketInfo_try_def raised_catch_thrown)

text \<open>
  C1. A bucket that the existence check finds and the listing does not show should make
  \<^verbatim>\<open>getBucketInfo\<close> fail with code \<^verbatim>\<open>NOT_FOUND\<close> and status 404. The code throws that
  error inside its own \<^verbatim>\<open>try\<close> block, and the \<^verbatim>\<open>catch\<close> clause replaces it: on the
  backend \<open>listing_other\<close>, which knows \<^verbatim>\<open>gone-bucket\<close> and lists only another bucket, the
  error that leaves \<^verbatim>\<open>getBucketInfo\<close> has code \<^verbatim>\<open>FastlyStorageError\<close> and no status.
  By \<open>getBucketInfo_absent\<close> the same holds for every such backend and name.
\<close>

theorem getBucketInfo_absent_bucket_code:
  "raised (getBucketInfo listing_other ''gone-bucket'') = Some (''FastlyStorageError'', None)"
  by (simp add: getBucketInfo_def getBucketInfo_try_def listBuckets_def catch_fromS3Error_def
      no_fields_def raised_def fromS3Error_of_thrown)

text \<open>
  The code \<^verbatim>\<open>NOT_FOUND\<close> with status 404 does reach the caller when the backend itself
  answers the existence check with 404, and a bucket that is listed is returned.
\<close>

lemma getBucketInfo_head_404:
  assumes "send (HeadBucketCommand nm) = Inl error" and "metadata_httpStatusCode error = Some 404"
  shows "raised (getBucketInfo send nm) = Some (''NOT_FOUND'', Some 404)"
  using assms
  by (simp add: getBucketInfo_def getBucketInfo_try_def catch_fromS3Error_def raised_def
      fromS3Error_404)

lemma getBucketInfo_listed:
  assumes "send (HeadBucketCommand nm) = Inr response"
    and "listBuckets send = Inr buckets"
    and "find (\<lambda>b. name b = Some nm) buckets = Some b"
  shows "getBucketInfo send nm = Inr b"
  using assms by (simp add: getBucketInfo_def getBucketInfo_try_def catch_fromS3Error_def)

lemma getObject_no_body:
  assumes "send (GetObjectCommand bkt ky options) = Inr response" and "Body response = None"
  shows "raised (getObject send now bkt ky options) = Some (''FastlyStorageError'', None)"
    and "raised (getObjectStream send bkt ky options) = Some (''FastlyStorageError'', None)"
  using assms
  by (simp_all add: getObject_def getObject_try_def getObjectStream_def getObjectStream_try_def
      raised_catch_thrown)

lemma catch_logged_quiet_thrown:
  "raised_thrown (fst (catch_logged quiet msg meta ctx (Inl (Thrown e), uploads)))
     = Some (''FastlyStorageError'', None)"
  by (simp add: catch_logged_def quiet_def fromS3Error_of_thrown)

lemma createMultipartUpload_no_upload_id:
  assumes "send (CreateMultipartUploadCommand bkt ky options) = Inr response"
    and "UploadId response = None"
  shows "raised_thrown (fst (createMultipartUpload quiet send bkt ky options uploads))
           = Some (''FastlyStorageError'', None)"
proof -
  from assms have "createMultipartUpload_try quiet send bkt ky options uploads
      = (Inl (Thrown (no_upload_id bkt ky)), uploads)"
    by (simp add: createMultipartUpload_try_def quiet_def)
  then show ?thesis
    by (simp add: createMultipartUpload_def catch_logged_quiet_thrown)
qed

lemma uploadPart_no_etag:
  assumes "uploads uid = Some st"
    and "send (UploadPartCommand (bucket st) (key st) uid pn data) = Inr response"
    and "ETag response = None"
  shows "raised_thrown (fst (uploadPart quiet send uid pn data uploads))
           = Some (''FastlyStorageError'', None)"
proof -
  from assms have "uploadPart_try quiet send st uid pn data uploads
      = (Inl (Thrown (no_etag uid pn)), uploads)"
    by (simp add: uploadPart_try_def quiet_def)
  with assms(1) show ?thesis
    by (simp add: uploadPart_def catch_logged_quiet_thrown)
qed

text \<open>
  C2. A response without the expected field should make the operation fail with
  \<^verbatim>\<open>EMPTY_BODY\<close>, \<^verbatim>\<open>NO_UPLOAD_ID\<close> or \<^verbatim>\<open>NO_ETAG\<close>. Each of these errors is thrown inside
  the \<^verbatim>\<open>try\<close> block and replaced by the \<^verbatim>\<open>catch\<close> clause: on the backend \<open>accepting\<close>,
  whose responses carry no field at all, \<^verbatim>\<open>getObject\<close>, \<^verbatim>\<open>getObjectStream\<close>,
  \<^verbatim>\<open>createMultipartUpload\<close> and \<^verbatim>\<open>uploadPart\<close> (of the tracked upload \<^verbatim>\<open>u1\<close>, both
  with a logger that returns) all fail with code \<^verbatim>\<open>FastlyStorageError\<close>. The three
  lemmas before this one say so for every backend.
\<close>

theorem missing_field_codes:
  "raised (getObject accepting 0 ''valid-bucket'' ''f.txt'' None)
     = Some (''FastlyStorageError'', None)
   \<and> raised (getObjectStream accepting ''valid-bucket'' ''f.txt'' None)
     = Some (''FastlyStorageError'', None)
   \<and> raised_thrown (fst (createMultipartUpload quiet accepting ''valid-bucket'' ''f.bin'' None
                            Map.empty))
     = Some (''FastlyStorageError'', None)
   \<and> raised_thrown (fst (uploadPart quiet accepting ''u1'' 1 [] session1))
     = Some (''FastlyStorageError'', None)"
  by (simp add: getObject_def getObject_try_def getObjectStream_def getObjectStream_try_def
      createMultipartUpload_def createMultipartUpload_try_def uploadPart_def uploadPart_try_def
      catch_logged_def quiet_def accepting_def no_fields_def session1_def raised_catch_thrown
      fromS3Error_of_thrown)

lemma isRetryable_iff:
  "isRetryable e \<longleftrightarrow>
     (\<exists>sc. statusCode e = Some sc \<and> sc \<noteq> 0 \<and>
        (sc \<ge> 500 \<or> sc = 429 \<or> sc = 408 \<or> code e = ''ECONNRESET'' \<or> code e = ''ETIMEDOUT''))"
  by (auto simp: isRetryable_def split: option.splits)

text \<open>
  C3. \<^verbatim>\<open>isRetryable\<close> should be true for a status of 500 or more, for 429, for 408 and
  for the transient network codes. Its first statement returns false for an error without
  a status, before the code is looked at: an error with code \<^verbatim>\<open>ECONNRESET\<close> and no HTTP
  status, which is what a reset connection produces, is not retryable. \<open>isRetryable_iff\<close>
  is what the method computes.
\<close>

theorem isRetryable_network_code_without_status:
  "isRetryable (FastlyStorageError ''read ECONNRESET'' ''ECONNRESET'' None None None) = False"
  by (simp add: isRetryable_def)

section \<open>Multipart sessions\<close>

lemma raised_upload_not_found:
  "raised_thrown (Inl (Thrown (upload_not_found uid))) = Some (''UPLOAD_NOT_FOUND'', None)"
  by (simp add: upload_not_found_def)


lemma completeMultipartUpload_untracked:
  "uploads uid = None \<Longrightarrow>
     completeMultipartUpload lg send uid parts uploads
       = (Inl (Thrown (upload_not_found uid)), uploads)"
  by (simp add: completeMultipartUpload_def)

lemma abortMultipartUpload_untracked:
  "uploads uid = None \<Longrightarrow>
     abortMultipartUpload lg send uid uploads = (Inl (Thrown (upload_not_found uid)), uploads)"
  by (simp add: abortMultipartUpload_def)

text \<open>
  The \<^verbatim>\<open>catch\<close> clause changes neither a returned value nor the map.
\<close>

lemma snd_catch_logged: "snd (catch_logged lg msg meta ctx r) = snd r"
  by (simp add: catch_logged_def split: sum.splits option.splits)

lemma fst_catch_logged_Inr:
  "fst (catch_logged lg msg meta ctx r) = Inr v \<longleftrightarrow> fst r = Inr v"
  by (auto simp: catch_logged_def split: sum.splits option.splits)

text \<open>
  What the \<^verbatim>\<open>try\<close> blocks do to the map. \<^verbatim>\<open>createMultipartUpload\<close> changes it only
  by storing the id of the backend's answer; it returns only after the logger has
  returned, and then the id it returns is the one it stored.
\<close>

lemma createMultipartUpload_try_cases:
  "snd (createMultipartUpload_try lg send bkt ky options uploads) = uploads
   \<or> (\<exists>response uid. send (CreateMultipartUploadCommand bkt ky options) = Inr response
         \<and> UploadId response = Some uid \<and> uid \<noteq> []
         \<and> snd (createMultipartUpload_try lg send bkt ky options uploads)
             = uploads(uid \<mapsto> \<lparr>uploadId = uid, bucket = bkt, key = ky\<rparr>))"
  by (auto simp: createMultipartUpload_try_def Let_def split: option.splits sum.splits)


lemma createMultipartUpload_try_raised:
  assumes "fst (createMultipartUpload_try lg send bkt ky options uploads) = Inl error"
    and "\<forall>meta. lg LogInfo ''Multipart upload created successfully'' meta = None"
  shows "snd (createMultipartUpload_try lg send bkt ky options uploads) = uploads"
  using assms
  by (auto simp: createMultipartUpload_try_def Let_def split: option.splits sum.splits if_splits)

lemma uploadPart_try_keeps_map:
  "snd (uploadPart_try lg send st uid pn data uploads) = uploads"
  by (simp add: uploadPart_try_def split: option.splits sum.splits)

lemma completeMultipartUpload_try_cases:
  "snd (completeMultipartUpload_try lg send st uid parts uploads) = uploads
   \<or> ((\<exists>response. send (CompleteMultipartUploadCommand (bucket st) (key st) uid
            (map (\<lambda>part. \<lparr>partNumber = partNumber part, etag = etag part\<rparr>) parts)) = Inr response)
       \<and> snd (completeMultipartUpload_try lg send st uid parts uploads) = uploads(uid := None))"
  by (auto simp: completeMultipartUpload_try_def Let_def split: option.splits sum.splits)

lemma completeMultipartUpload_try_returned:
  "fst (completeMultipartUpload_try lg send st uid parts uploads) = Inr result \<Longrightarrow>
     snd (completeMultipartUpload_try lg send st uid parts uploads) = uploads(uid := None)"
  by (auto simp: completeMultipartUpload_try_def Let_def split: option.splits sum.splits)

lemma completeMultipartUpload_try_raised:
  assumes "fst (completeMultipartUpload_try lg send st uid parts uploads) = Inl error"
    and "\<forall>meta. lg LogInfo ''Multipart upload completed successfully'' meta = None"
  shows "snd (completeMultipartUpload_try lg send st uid parts uploads) = uploads"
  using assms
  by (auto simp: completeMultipartUpload_try_def Let_def split: option.splits sum.splits)

lemma abortMultipartUpload_try_cases:
  "snd (abortMultipartUpload_try lg send st uid uploads) = uploads
   \<or> ((\<exists>response. send (AbortMultipartUploadCommand (bucket st) (key st) uid) = Inr response)
       \<and> snd (abortMultipartUpload_try lg send st uid uploads) = uploads(uid := None))"
  by (auto simp: abortMultipartUpload_try_def Let_def split: option.splits sum.splits)

lemma abortMultipartUpload_try_returned:
  "fst (abortMultipartUpload_try lg send st uid uploads) = Inr ok \<Longrightarrow>
     snd (abortMultipartUpload_try lg send st uid uploads) = uploads(uid := None)"
  by (auto simp: abortMultipartUpload_try_def Let_def split: option.splits sum.splits)

lemma abortMultipartUpload_try_raised:
  assumes "fst (abortMultipartUpload_try lg send st uid uploads) = Inl error"
    and "\<forall>meta. lg LogInfo ''Multipart upload aborted successfully'' meta = None"
  shows "snd (abortMultipartUpload_try lg send st uid uploads) = uploads"
  using assms
  by (auto simp: abortMultipartUpload_try_def Let_def split: option.splits sum.splits)

lemma completeMultipartUpload_try_dom:
  "dom (snd (completeMultipartUpload_try lg send st uid parts uploads)) \<subseteq> dom uploads"
  by (auto simp: completeMultipartUpload_try_def Let_def split: option.splits sum.splits if_splits)

lemma abortMultipartUpload_try_dom:
  "dom (snd (abortMultipartUpload_try lg send st uid uploads)) \<subseteq> dom uploads"
  by (auto simp: abortMultipartUpload_try_def Let_def split: option.splits sum.splits if_splits)

text \<open>
  The keys of the map after a history of calls are among the keys it had and the ids the
  backend issued, whatever the loggers did; when the loggers returned, they are among the
  keys it had and the ids \<^verbatim>\<open>createMultipartUpload\<close> returned.
\<close>

lemma mp_step_dom_issued: "dom (mp_step c uploads) \<subseteq> dom uploads \<union> set_option (issued_id c)"
proof (cases c)
  case (CreateCall lg send bkt ky options)
  then show ?thesis
    using createMultipartUpload_try_cases[of lg send bkt ky options uploads]
    by (auto simp: createMultipartUpload_def snd_catch_logged)
next
  case (PartCall lg send uid pn data)
  then show ?thesis
    by (auto simp: uploadPart_def snd_catch_logged uploadPart_try_keeps_map split: option.splits)
next
  case (CompleteCall lg send uid parts)
  then show ?thesis
    using completeMultipartUpload_try_dom[of lg send _ uid parts uploads]
    by (auto simp: completeMultipartUpload_def snd_catch_logged split: option.splits)
next
  case (AbortCall lg send uid)
  then show ?thesis
    using abortMultipartUpload_try_dom[of lg send _ uid uploads]
    by (auto simp: abortMultipartUpload_def snd_catch_logged split: option.splits)
qed

lemma mp_run_dom_issued: "dom (mp_run cs uploads) \<subseteq> dom uploads \<union> issued_ids cs"
proof (induction cs arbitrary: uploads)
  case Nil
  then show ?case by simp
next
  case (Cons c cs)
  have "dom (mp_run cs (mp_step c uploads)) \<subseteq> dom (mp_step c uploads) \<union> issued_ids cs"
    by (rule Cons.IH)
  moreover have "dom (mp_step c uploads) \<subseteq> dom uploads \<union> set_option (issued_id c)"
    by (rule mp_step_dom_issued)
  ultimately have "dom (mp_run cs (mp_step c uploads))
      \<subseteq> dom uploads \<union> (set_option (issued_id c) \<union> issued_ids cs)"
    by blast
  then show ?case by simp
qed

lemma never_issued_untracked:
  assumes "uploads uid = None" and "uid \<notin> issued_ids later"
  shows "mp_run later uploads uid = None"
  using mp_run_dom_issued[of later uploads] assms by (auto simp: domIff)








lemma completeMultipartUpload_success:
  assumes "completeMultipartUpload lg send uid parts uploads = (Inr result, uploads')"
  shows "uploads' = uploads(uid := None)"
proof (cases "uploads uid")
  case None
  with assms show ?thesis by (simp add: completeMultipartUpload_def)
next
  case (Some st)
  from assms have "fst (completeMultipartUpload lg send uid parts uploads) = Inr result"
    by simp
  with Some have "fst (completeMultipartUpload_try lg send st uid parts uploads) = Inr result"
    by (simp add: completeMultipartUpload_def fst_catch_logged_Inr)
  then have "snd (completeMultipartUpload_try lg send st uid parts uploads) = uploads(uid := None)"
    by (rule completeMultipartUpload_try_returned)
  moreover from assms have "snd (completeMultipartUpload lg send uid parts uploads) = uploads'"
    by simp
  with Some have "snd (completeMultipartUpload_try lg send st uid parts uploads) = uploads'"
    by (simp add: completeMultipartUpload_def snd_catch_logged)
  ultimately show ?thesis by simp
qed

lemma abortMultipartUpload_success:
  assumes "abortMultipartUpload lg send uid uploads = (Inr ok, uploads')"
  shows "uploads' = uploads(uid := None)"
proof (cases "uploads uid")
  case None
  with assms show ?thesis by (simp add: abortMultipartUpload_def)
next
  case (Some st)
  from assms have "fst (abortMultipartUpload lg send uid uploads) = Inr ok"
    by simp
  with Some have "fst (abortMultipartUpload_try lg send st uid uploads) = Inr ok"
    by (simp add: abortMultipartUpload_def fst_catch_logged_Inr)
  then have "snd (abortMultipartUpload_try lg send st uid uploads) = uploads(uid := None)"
    by (rule abortMultipartUpload_try_returned)
  moreover from assms have "snd (abortMultipartUpload lg send uid uploads) = uploads'"
    by simp
  with Some have "snd (abortMultipartUpload_try lg send st uid uploads) = uploads'"
    by (simp add: abortMultipartUpload_def snd_catch_logged)
  ultimately show ?thesis by simp
qed

lemma completeMultipartUpload_accepting:
  "completeMultipartUpload quiet accepting ''u1'' [] session1
     = (Inr \<lparr>ur_etag = None, ur_versionId = None, ur_location = None\<rparr>, Map.empty)"
  by (simp add: completeMultipartUpload_def completeMultipartUpload_try_def catch_logged_def
      quiet_def accepting_def no_fields_def session1_def)

lemma abortMultipartUpload_accepting:
  "abortMultipartUpload quiet accepting ''u1'' session1 = (Inr (), Map.empty)"
  by (simp add: abortMultipartUpload_def abortMultipartUpload_try_def catch_logged_def
      quiet_def accepting_def session1_def)

text \<open>
  C5, as worded: after a successful \<^verbatim>\<open>completeMultipartUpload\<close>, any later
  \<^verbatim>\<open>completeMultipartUpload\<close> or \<^verbatim>\<open>abortMultipartUpload\<close> of the same id fails. The map is
  keyed by the ids the backend issues: once \<^verbatim>\<open>u1\<close> is completed, a
  \<^verbatim>\<open>createMultipartUpload\<close> that the backend answers with \<^verbatim>\<open>u1\<close> again tracks the id
  anew, and both operations then succeed for it.
\<close>

theorem finished_upload_reissued_counterexample:
  "completeMultipartUpload quiet accepting ''u1'' [] session1
     = (Inr \<lparr>ur_etag = None, ur_versionId = None, ur_location = None\<rparr>, Map.empty)
   \<and> fst (completeMultipartUpload quiet accepting ''u1'' []
            (mp_run [CreateCall quiet issuing ''valid-bucket'' ''g.bin'' None] Map.empty))
       = Inr \<lparr>ur_etag = None, ur_versionId = None, ur_location = None\<rparr>
   \<and> fst (abortMultipartUpload quiet accepting ''u1''
            (mp_run [CreateCall quiet issuing ''valid-bucket'' ''g.bin'' None] Map.empty))
       = Inr ()"
  by (simp add: completeMultipartUpload_def completeMultipartUpload_try_def
      abortMultipartUpload_def abortMultipartUpload_try_def createMultipartUpload_def
      createMultipartUpload_try_def catch_logged_def quiet_def accepting_def issuing_def
      no_fields_def session1_def)

text \<open>
  C5, amended. When \<^verbatim>\<open>completeMultipartUpload\<close> succeeds for an upload id, the map it
  leaves is the old one without that id, and the same holds for \<^verbatim>\<open>abortMultipartUpload\<close>.
  After any later calls in which the backend does not issue that id again (none at all,
  for the call that follows at once), both \<^verbatim>\<open>completeMultipartUpload\<close> and
  \<^verbatim>\<open>abortMultipartUpload\<close> of the same id fail with \<^verbatim>\<open>UPLOAD_NOT_FOUND\<close>, whatever the
  backend would answer and whatever the logger does.
\<close>

theorem finished_upload_forgotten:
  "(completeMultipartUpload lg send uid parts uploads = (Inr result, uploads_a)
      \<and> uid \<notin> issued_ids later
    \<longrightarrow> uploads_a = uploads(uid := None)
        \<and> raised_thrown (fst (completeMultipartUpload lg_b send_b uid parts_b
                                (mp_run later uploads_a)))
            = Some (''UPLOAD_NOT_FOUND'', None)
        \<and> raised_thrown (fst (abortMultipartUpload lg_c send_c uid (mp_run later uploads_a)))
            = Some (''UPLOAD_NOT_FOUND'', None))
   \<and> (abortMultipartUpload lg send uid uploads = (Inr ok, uploads_b)
      \<and> uid \<notin> issued_ids later
    \<longrightarrow> uploads_b = uploads(uid := None)
        \<and> raised_thrown (fst (completeMultipartUpload lg_b send_b uid parts_b
                                (mp_run later uploads_b)))
            = Some (''UPLOAD_NOT_FOUND'', None)
        \<and> raised_thrown (fst (abortMultipartUpload lg_c send_c uid (mp_run later uploads_b)))
            = Some (''UPLOAD_NOT_FOUND'', None))"
proof -
  have after: "raised_thrown (fst (completeMultipartUpload lg_b send_b uid parts_b
                                    (mp_run later m)))
                 = Some (''UPLOAD_NOT_FOUND'', None)
               \<and> raised_thrown (fst (abortMultipartUpload lg_c send_c uid (mp_run later m)))
                 = Some (''UPLOAD_NOT_FOUND'', None)"
    if "m = uploads(uid := None)" and "uid \<notin> issued_ids later" for m
  proof -
    from that have "m uid = None" by simp
    then have "mp_run later m uid = None"
      using that(2) by (rule never_issued_untracked)
    then show ?thesis
      by (simp add: completeMultipartUpload_untracked abortMultipartUpload_untracked
          upload_not_found_def)
  qed
  show ?thesis
    using after[of uploads_a] after[of uploads_b]
      completeMultipartUpload_success[of lg send uid parts uploads result uploads_a]
      abortMultipartUpload_success[of lg send uid uploads ok uploads_b]
    by blast
qed

theorem finished_upload_forgotten_witness:
  "completeMultipartUpload quiet accepting ''u1'' [] session1
     = (Inr \<lparr>ur_etag = None, ur_versionId = None, ur_location = None\<rparr>, Map.empty)
   \<and> abortMultipartUpload quiet accepting ''u1'' session1 = (Inr (), Map.empty)
   \<and> ''u1'' \<notin> issued_ids [CreateCall quiet issuing_other ''valid-bucket'' ''g.bin'' None]
   \<and> raised_thrown (fst (completeMultipartUpload quiet accepting ''u1'' []
        (mp_run [CreateCall quiet issuing_other ''valid-bucket'' ''g.bin'' None] Map.empty)))
       = Some (''UPLOAD_NOT_FOUND'', None)
   \<and> raised_thrown (fst (abortMultipartUpload quiet accepting ''u1''
        (mp_run [CreateCall quiet issuing_other ''valid-bucket'' ''g.bin'' None] Map.empty)))
       = Some (''UPLOAD_NOT_FOUND'', None)"
proof -
  note completed = completeMultipartUpload_accepting
  note aborted = abortMultipartUpload_accepting
  have fresh: "''u1'' \<notin> issued_ids [CreateCall quiet issuing_other ''valid-bucket'' ''g.bin'' None]"
    by (simp add: issuing_other_def)
  note both = finished_upload_forgotten[where lg = quiet and send = accepting and uid = "''u1''"
      and parts = "[]" and uploads = session1 and uploads_a = Map.empty and uploads_b = Map.empty
      and later = "[CreateCall quiet issuing_other ''valid-bucket'' ''g.bin'' None]"
      and lg_b = quiet and send_b = accepting and parts_b = "[]" and lg_c = quiet
      and send_c = accepting]
  from both completed fresh
  have "raised_thrown (fst (completeMultipartUpload quiet accepting ''u1'' []
        (mp_run [CreateCall quiet issuing_other ''valid-bucket'' ''g.bin'' None] Map.empty)))
       = Some (''UPLOAD_NOT_FOUND'', None)"
    by blast
  moreover from both aborted fresh
  have "raised_thrown (fst (abortMultipartUpload quiet accepting ''u1''
        (mp_run [CreateCall quiet issuing_other ''valid-bucket'' ''g.bin'' None] Map.empty)))
       = Some (''UPLOAD_NOT_FOUND'', None)"
    by blast
  ultimately show ?thesis using completed aborted fresh by blast
qed

lemma createMultipartUpload_raised:
  assumes "fst (createMultipartUpload lg send bkt ky options uploads) = Inl error"
    and "\<forall>meta. lg LogInfo ''Multipart upload created successfully'' meta = None"
  shows "snd (createMultipartUpload lg send bkt ky options uploads) = uploads"
proof (cases "fst (createMultipartUpload_try lg send bkt ky options uploads)")
  case (Inl thrown)
  then have "snd (createMultipartUpload_try lg send bkt ky options uploads) = uploads"
    using assms(2) by (rule createMultipartUpload_try_raised)
  then show ?thesis by (simp add: createMultipartUpload_def snd_catch_logged)
next
  case (Inr result)
  then have "fst (createMultipartUpload lg send bkt ky options uploads) = Inr result"
    by (simp add: createMultipartUpload_def fst_catch_logged_Inr)
  with assms(1) show ?thesis by simp
qed

lemma uploadPart_keeps_map: "snd (uploadPart lg send uid pn data uploads) = uploads"
  by (simp add: uploadPart_def snd_catch_logged uploadPart_try_keeps_map split: option.splits)

lemma completeMultipartUpload_raised:
  assumes "fst (completeMultipartUpload lg send uid parts uploads) = Inl error"
    and "\<forall>meta. lg LogInfo ''Multipart upload completed successfully'' meta = None"
  shows "snd (completeMultipartUpload lg send uid parts uploads) = uploads"
proof (cases "uploads uid")
  case None
  then show ?thesis by (simp add: completeMultipartUpload_def)
next
  case (Some st)
  show ?thesis
  proof (cases "fst (completeMultipartUpload_try lg send st uid parts uploads)")
    case (Inl thrown)
    then have "snd (completeMultipartUpload_try lg send st uid parts uploads) = uploads"
      using assms(2) by (rule completeMultipartUpload_try_raised)
    with Some show ?thesis by (simp add: completeMultipartUpload_def snd_catch_logged)
  next
    case (Inr result)
    with Some have "fst (completeMultipartUpload lg send uid parts uploads) = Inr result"
      by (simp add: completeMultipartUpload_def fst_catch_logged_Inr)
    with assms(1) show ?thesis by simp
  qed
qed

lemma abortMultipartUpload_raised:
  assumes "fst (abortMultipartUpload lg send uid uploads) = Inl error"
    and "\<forall>meta. lg LogInfo ''Multipart upload aborted successfully'' meta = None"
  shows "snd (abortMultipartUpload lg send uid uploads) = uploads"
proof (cases "uploads uid")
  case None
  then show ?thesis by (simp add: abortMultipartUpload_def)
next
  case (Some st)
  show ?thesis
  proof (cases "fst (abortMultipartUpload_try lg send st uid uploads)")
    case (Inl thrown)
    then have "snd (abortMultipartUpload_try lg send st uid uploads) = uploads"
      using assms(2) by (rule abortMultipartUpload_try_raised)
    with Some show ?thesis by (simp add: abortMultipartUpload_def snd_catch_logged)
  next
    case (Inr ok)
    with Some have "fst (abortMultipartUpload lg send uid uploads) = Inr ok"
      by (simp add: abortMultipartUpload_def fst_catch_logged_Inr)
    with assms(1) show ?thesis by simp
  qed
qed

lemma createMultipartUpload_change:
  assumes "snd (createMultipartUpload lg send bkt ky options uploads) \<noteq> uploads"
  shows "\<exists>response. send (CreateMultipartUploadCommand bkt ky options) = Inr response"
  using assms createMultipartUpload_try_cases[of lg send bkt ky options uploads]
  by (auto simp: createMultipartUpload_def snd_catch_logged)

lemma createMultipartUpload_keeps_sessions:
  assumes "uploads x = Some st"
  shows "snd (createMultipartUpload lg send bkt ky options uploads) x \<noteq> None"
  using assms createMultipartUpload_try_cases[of lg send bkt ky options uploads]
  by (auto simp: createMultipartUpload_def snd_catch_logged)

lemma completeMultipartUpload_removal:
  assumes "uploads x = Some st" and "snd (completeMultipartUpload lg send uid parts uploads) x = None"
  shows "x = uid \<and> (\<exists>response. send (CompleteMultipartUploadCommand (bucket st) (key st) uid
            (map (\<lambda>part. \<lparr>partNumber = partNumber part, etag = etag part\<rparr>) parts)) = Inr response)"
proof (cases "uploads uid")
  case None
  with assms show ?thesis by (simp add: completeMultipartUpload_def)
next
  case (Some st')
  with assms(2) have gone: "snd (completeMultipartUpload_try lg send st' uid parts uploads) x = None"
    by (simp add: completeMultipartUpload_def snd_catch_logged)
  with assms(1) completeMultipartUpload_try_cases[of lg send st' uid parts uploads]
  have "x = uid \<and> (\<exists>response. send (CompleteMultipartUploadCommand (bucket st') (key st') uid
            (map (\<lambda>part. \<lparr>partNumber = partNumber part, etag = etag part\<rparr>) parts)) = Inr response)"
    by (auto split: if_splits)
  with Some assms(1) show ?thesis by auto
qed

lemma abortMultipartUpload_removal:
  assumes "uploads x = Some st" and "snd (abortMultipartUpload lg send uid uploads) x = None"
  shows "x = uid
         \<and> (\<exists>response. send (AbortMultipartUploadCommand (bucket st) (key st) uid) = Inr response)"
proof (cases "uploads uid")
  case None
  with assms show ?thesis by (simp add: abortMultipartUpload_def)
next
  case (Some st')
  with assms(2) have gone: "snd (abortMultipartUpload_try lg send st' uid uploads) x = None"
    by (simp add: abortMultipartUpload_def snd_catch_logged)
  with assms(1) abortMultipartUpload_try_cases[of lg send st' uid uploads]
  have "x = uid
      \<and> (\<exists>response. send (AbortMultipartUploadCommand (bucket st') (key st') uid) = Inr response)"
    by (auto split: if_splits)
  with Some assms(1) show ?thesis by auto
qed

text \<open>
  C6, as worded: the map is unchanged whenever a multipart operation raises. Each of
  \<^verbatim>\<open>createMultipartUpload\<close>, \<^verbatim>\<open>completeMultipartUpload\<close> and \<^verbatim>\<open>abortMultipartUpload\<close>
  calls the logger inside its \<^verbatim>\<open>try\<close> block after it has changed the map. With a logger
  that throws there, \<^verbatim>\<open>createMultipartUpload\<close> raises (code \<^verbatim>\<open>Error\<close>, the name of what
  the logger threw) and the new session is in the map, and \<^verbatim>\<open>completeMultipartUpload\<close>
  raises and the session is gone.
\<close>

theorem logger_throw_after_change_counterexample:
  "raised_thrown (fst (createMultipartUpload failing_on_success issuing ''valid-bucket'' ''f.bin''
                         None Map.empty)) = Some (''Error'', None)
   \<and> snd (createMultipartUpload failing_on_success issuing ''valid-bucket'' ''f.bin'' None
            Map.empty) ''u1''
       = Some \<lparr>uploadId = ''u1'', bucket = ''valid-bucket'', key = ''f.bin''\<rparr>
   \<and> raised_thrown (fst (completeMultipartUpload failing_on_success accepting ''u1'' [] session1))
       = Some (''Error'', None)
   \<and> session1 ''u1'' = Some \<lparr>uploadId = ''u1'', bucket = ''valid-bucket'', key = ''f.bin''\<rparr>
   \<and> snd (completeMultipartUpload failing_on_success accepting ''u1'' [] session1) ''u1'' = None"
  by (simp add: createMultipartUpload_def createMultipartUpload_try_def
      completeMultipartUpload_def completeMultipartUpload_try_def catch_logged_def
      failing_on_success_def issuing_def accepting_def no_fields_def session1_def
      fromS3Error_def metadata_httpStatusCode_def)

text \<open>
  C6, amended. \<^verbatim>\<open>uploadPart\<close> never changes the map. When \<^verbatim>\<open>createMultipartUpload\<close>,
  \<^verbatim>\<open>completeMultipartUpload\<close> or \<^verbatim>\<open>abortMultipartUpload\<close> raises and the logger call that
  reports the operation's success has not thrown, the map is as it was: so it is when the
  backend fails, when the response lacks the upload id, and with every logger that
  returns. The map changes only after the backend has answered the command without an
  error. A tracked session disappears only in \<^verbatim>\<open>completeMultipartUpload\<close> or
  \<^verbatim>\<open>abortMultipartUpload\<close> of its own id, and only after the backend has confirmed;
  \<^verbatim>\<open>createMultipartUpload\<close> removes no session.
\<close>

theorem failure_leaves_uploads_unchanged:
  "(fst (createMultipartUpload lg send bkt ky options uploads) = Inl e_a
      \<and> (\<forall>meta. lg LogInfo ''Multipart upload created successfully'' meta = None)
      \<longrightarrow> snd (createMultipartUpload lg send bkt ky options uploads) = uploads)
   \<and> snd (uploadPart lg send uid pn data uploads) = uploads
   \<and> (fst (completeMultipartUpload lg send uid parts uploads) = Inl e_b
      \<and> (\<forall>meta. lg LogInfo ''Multipart upload completed successfully'' meta = None)
      \<longrightarrow> snd (completeMultipartUpload lg send uid parts uploads) = uploads)
   \<and> (fst (abortMultipartUpload lg send uid uploads) = Inl e_c
      \<and> (\<forall>meta. lg LogInfo ''Multipart upload aborted successfully'' meta = None)
      \<longrightarrow> snd (abortMultipartUpload lg send uid uploads) = uploads)
   \<and> (snd (createMultipartUpload lg send bkt ky options uploads) \<noteq> uploads
      \<longrightarrow> (\<exists>response. send (CreateMultipartUploadCommand bkt ky options) = Inr response))
   \<and> (uploads x = Some st
      \<longrightarrow> snd (createMultipartUpload lg send bkt ky options uploads) x \<noteq> None)
   \<and> (uploads x = Some st \<and> snd (completeMultipartUpload lg send uid parts uploads) x = None
      \<longrightarrow> x = uid \<and> (\<exists>response. send (CompleteMultipartUploadCommand (bucket st) (key st) uid
              (map (\<lambda>part. \<lparr>partNumber = partNumber part, etag = etag part\<rparr>) parts))
                = Inr response))
   \<and> (uploads x = Some st \<and> snd (abortMultipartUpload lg send uid uploads) x = None
      \<longrightarrow> x = uid
          \<and> (\<exists>response. send (AbortMultipartUploadCommand (bucket st) (key st) uid) = Inr response))"
  using createMultipartUpload_raised[of lg send bkt ky options uploads e_a]
    uploadPart_keeps_map[of lg send uid pn data uploads]
    completeMultipartUpload_raised[of lg send uid parts uploads e_b]
    abortMultipartUpload_raised[of lg send uid uploads e_c]
    createMultipartUpload_change[of lg send bkt ky options uploads]
    createMultipartUpload_keeps_sessions[of uploads x st lg send bkt ky options]
    completeMultipartUpload_removal[of uploads x st lg send uid parts]
    abortMultipartUpload_removal[of uploads x st lg send uid]
  by blast

theorem failure_leaves_uploads_unchanged_witness:
  "(\<exists>e. fst (createMultipartUpload quiet refusing ''valid-bucket'' ''g.bin'' None session1) = Inl e)
   \<and> snd (createMultipartUpload quiet refusing ''valid-bucket'' ''g.bin'' None session1) = session1
   \<and> (\<exists>e. fst (completeMultipartUpload quiet refusing ''u1'' [] session1) = Inl e)
   \<and> snd (completeMultipartUpload quiet refusing ''u1'' [] session1) = session1
   \<and> (\<exists>e. fst (abortMultipartUpload quiet refusing ''u1'' session1) = Inl e)
   \<and> snd (abortMultipartUpload quiet refusing ''u1'' session1) = session1
   \<and> snd (completeMultipartUpload quiet accepting ''u1'' [] session1) ''u1'' = None
   \<and> (\<exists>response. accepting (CompleteMultipartUploadCommand ''valid-bucket'' ''f.bin'' ''u1'' [])
         = Inr response)
   \<and> snd (abortMultipartUpload quiet accepting ''u1'' session1) ''u1'' = None
   \<and> (\<exists>response. accepting (AbortMultipartUploadCommand ''valid-bucket'' ''f.bin'' ''u1'')
         = Inr response)"
proof -
  have tracked: "session1 ''u1''
      = Some \<lparr>uploadId = ''u1'', bucket = ''valid-bucket'', key = ''f.bin''\<rparr>"
    by (simp add: session1_def)
  have returns: "\<forall>meta. quiet LogInfo msg meta = None" for msg
    by (simp add: quiet_def)
  obtain e_a where a: "fst (createMultipartUpload quiet refusing ''valid-bucket'' ''g.bin'' None
      session1) = Inl e_a"
    by (simp add: createMultipartUpload_def createMultipartUpload_try_def catch_logged_def
        quiet_def refusing_def)
  obtain e_b where b: "fst (completeMultipartUpload quiet refusing ''u1'' [] session1) = Inl e_b"
    by (simp add: completeMultipartUpload_def completeMultipartUpload_try_def tracked
        catch_logged_def quiet_def refusing_def)
  obtain e_c where c: "fst (abortMultipartUpload quiet refusing ''u1'' session1) = Inl e_c"
    by (simp add: abortMultipartUpload_def abortMultipartUpload_try_def tracked
        catch_logged_def quiet_def refusing_def)
  have gone_b: "snd (completeMultipartUpload quiet accepting ''u1'' [] session1) ''u1'' = None"
    by (simp add: completeMultipartUpload_accepting)
  have gone_c: "snd (abortMultipartUpload quiet accepting ''u1'' session1) ''u1'' = None"
    by (simp add: abortMultipartUpload_accepting)
  note on_failure = failure_leaves_uploads_unchanged[where lg = quiet and send = refusing
      and bkt = "''valid-bucket''" and ky = "''g.bin''" and options = None and uploads = session1
      and uid = "''u1''" and parts = "[]" and e_a = e_a and e_b = e_b and e_c = e_c]
  note on_removal = failure_leaves_uploads_unchanged[where lg = quiet and send = accepting
      and uploads = session1 and uid = "''u1''" and parts = "[]" and x = "''u1''"
      and st = "\<lparr>uploadId = ''u1'', bucket = ''valid-bucket'', key = ''f.bin''\<rparr>"]
  from on_failure a b c returns
  have "snd (createMultipartUpload quiet refusing ''valid-bucket'' ''g.bin'' None session1) = session1
      \<and> snd (completeMultipartUpload quiet refusing ''u1'' [] session1) = session1
      \<and> snd (abortMultipartUpload quiet refusing ''u1'' session1) = session1"
    by blast
  moreover from on_removal tracked gone_b gone_c
  have "(\<exists>response. accepting (CompleteMultipartUploadCommand ''valid-bucket'' ''f.bin'' ''u1'' [])
          = Inr response)
      \<and> (\<exists>response. accepting (AbortMultipartUploadCommand ''valid-bucket'' ''f.bin'' ''u1'')
          = Inr response)"
    by simp
  ultimately show ?thesis using a b c gone_b gone_c by blast
qed

section \<open>Configuration\<close>

lemma js_or_pick_nonempty:
  "js_or_str (js_or explicit from_env) dflt = pick_nonempty explicit from_env dflt"
  by (cases explicit; cases from_env)
     (auto simp: js_or_str_def js_or_def truthy_def pick_nonempty_def split: list.splits)

lemma js_or_pick_present:
  "explicit \<noteq> Some [] \<Longrightarrow> from_env \<noteq> Some [] \<Longrightarrow>
     js_or_str (js_or explicit from_env) dflt = pick_present explicit from_env dflt"
  by (cases explicit; cases from_env)
     (simp_all add: js_or_str_def js_or_def truthy_def pick_present_def)

lemma nullish_pick_present: "nullish explicit dflt = pick_present explicit None dflt"
  by (simp add: nullish_def pick_present_def split: option.splits)

text \<open>
  Where no explicit string field and no consulted environment variable is the empty string,
  the merged configuration is the one the contract describes.
\<close>

lemma mergeConfig_as_worded_without_empty_strings:
  assumes "cfg_endpoint config \<noteq> Some []" "cfg_accessKeyId config \<noteq> Some []"
    "cfg_secretAccessKey config \<noteq> Some []" "cfg_region config \<noteq> Some []"
    and "env ''FASTLY_ENDPOINT'' \<noteq> Some []" "env ''FASTLY_ACCESS_KEY_ID'' \<noteq> Some []"
      "env ''FASTLY_SECRET_ACCESS_KEY'' \<noteq> Some []" "env ''FASTLY_REGION'' \<noteq> Some []"
  shows "mergeConfig env config = mergeConfig_as_worded env config"
  using assms
  by (simp add: mergeConfig_def mergeConfig_as_worded_def js_or_pick_present
      nullish_pick_present default_retryPolicy_def)

text \<open>
  C7, as worded: each explicit field is taken if present. An explicit endpoint that is the
  empty string is present, and \<^verbatim>\<open>||\<close> passes over it: with \<^verbatim>\<open>FASTLY_ENDPOINT\<close> set, the
  merged endpoint is the environment's.
\<close>

theorem mergeConfig_empty_string_counterexample:
  "endpoint (mergeConfig [''FASTLY_ENDPOINT'' \<mapsto> ''https://env.example'']
               (empty_config\<lparr>cfg_endpoint := Some []\<rparr>)) = ''https://env.example''
   \<and> endpoint (mergeConfig_as_worded [''FASTLY_ENDPOINT'' \<mapsto> ''https://env.example'']
               (empty_config\<lparr>cfg_endpoint := Some []\<rparr>)) = []"
  by (simp add: mergeConfig_def mergeConfig_as_worded_def empty_config_def js_or_def
      js_or_str_def truthy_def pick_present_def)

text \<open>
  C7, amended. Endpoint, access key id, secret access key and region take the explicit
  field if it is present and not empty, else the environment variable
  (\<^verbatim>\<open>FASTLY_ENDPOINT\<close>, \<^verbatim>\<open>FASTLY_ACCESS_KEY_ID\<close>, \<^verbatim>\<open>FASTLY_SECRET_ACCESS_KEY\<close>,
  \<^verbatim>\<open>FASTLY_REGION\<close>) if it is set and not empty, else the default (the empty string, and
  \<^verbatim>\<open>us-east-1\<close> for the region). maxRetries, timeout, forcePathStyle, the logger and the
  retry policy take the explicit field if present, else 3, 30000, true, the default logger
  and the policy of 3 retries, 1000 ms and multiplier 2.
\<close>

theorem mergeConfig_resolution:
  "mergeConfig env config =
     \<lparr>endpoint = pick_nonempty (cfg_endpoint config) (env ''FASTLY_ENDPOINT'') [],
      accessKeyId = pick_nonempty (cfg_accessKeyId config) (env ''FASTLY_ACCESS_KEY_ID'') [],
      secretAccessKey =
        pick_nonempty (cfg_secretAccessKey config) (env ''FASTLY_SECRET_ACCESS_KEY'') [],
      region = pick_nonempty (cfg_region config) (env ''FASTLY_REGION'') ''us-east-1'',
      maxRetries = pick_present (cfg_maxRetries config) None (Num 3),
      timeout = pick_present (cfg_timeout config) None (Num 30000),
      logger = pick_present (cfg_logger config) None DefaultLogger,
      retryPolicy = pick_present (cfg_retryPolicy config) None
        \<lparr>rp_maxRetries = Num 3, retryDelay = Num 1000, retryDelayMultiplier = Num 2,
         maxRetryDelay = None, rp_isRetryable = None\<rparr>,
      forcePathStyle = pick_present (cfg_forcePathStyle config) None True\<rparr>"
  by (simp add: mergeConfig_def js_or_pick_nonempty nullish_pick_present default_retryPolicy_def)

lemma validateConfig_Inl_iff:
  "(\<exists>e. validateConfig parses cfg = Inl e) \<longleftrightarrow>
     (endpoint cfg = [] \<or> accessKeyId cfg = [] \<or> secretAccessKey cfg = []
      \<or> \<not> parses (endpoint cfg) \<or> js_less (maxRetries cfg) (Num 0)
      \<or> js_le (timeout cfg) (Num 0))"
  by (auto simp: validateConfig_def isValidUrl_def)

lemma validateConfig_code:
  "validateConfig parses cfg = Inl e \<Longrightarrow> code e = ''INVALID_CONFIG'' \<and> statusCode e = None"
  by (auto simp: validateConfig_def invalid_config_def split: if_splits)

text \<open>
  What the constructor does: it fails with \<^verbatim>\<open>INVALID_CONFIG\<close> exactly when one of the six
  checks of \<^verbatim>\<open>validateConfig\<close> holds of the merged configuration, the last two being
  \<^verbatim>\<open>maxRetries < 0\<close> and \<^verbatim>\<open>timeout <= 0\<close> as JavaScript compares numbers. When it fails no
  storage client has been instantiated; when it does not, it returns a client and has
  instantiated exactly the storage client of that client.
\<close>

lemma constructor_fails_iff:
  assumes "cfg = mergeConfig env (nullish arg empty_config)"
    and "invalid = (endpoint cfg = [] \<or> accessKeyId cfg = [] \<or> secretAccessKey cfg = []
      \<or> \<not> parses (endpoint cfg) \<or> js_less (maxRetries cfg) (Num 0)
      \<or> js_le (timeout cfg) (Num 0))"
  shows "(raised (fst (new_FastlyStorageClient env parses arg created))
            = Some (''INVALID_CONFIG'', None)) = invalid
         \<and> (invalid \<longrightarrow> snd (new_FastlyStorageClient env parses arg created) = created)
         \<and> (\<not> invalid \<longrightarrow> (\<exists>client. new_FastlyStorageClient env parses arg created
                 = (Inr client, created @ [client_s3Client client])))"
proof (cases "validateConfig parses cfg")
  case (Inl e)
  then have inv: invalid using validateConfig_Inl_iff[of parses cfg] assms(2) by blast
  from Inl have "code e = ''INVALID_CONFIG'' \<and> statusCode e = None"
    by (rule validateConfig_code)
  with Inl inv assms(1) show ?thesis
    by (simp add: new_FastlyStorageClient_def raised_def)
next
  case (Inr ok)
  then have ninv: "\<not> invalid" using validateConfig_Inl_iff[of parses cfg] assms(2) by auto
  with Inr assms(1) show ?thesis
    by (simp add: new_FastlyStorageClient_def raised_def initializeS3Client_def Let_def)
qed

text \<open>
  A timeout that is an integer or an infinity is rejected exactly when it is not positive.
\<close>

lemma js_le_zero_not_positive:
  "t \<noteq> NaN \<Longrightarrow> js_le t (Num 0) \<longleftrightarrow> \<not> js_less (Num 0) t"
  by (cases t) auto

text \<open>
  C8. The constructor should fail with \<^verbatim>\<open>INVALID_CONFIG\<close> whenever the timeout is not
  positive. \<^verbatim>\<open>config.timeout ?? 30000\<close> keeps a timeout that is \<^verbatim>\<open>NaN\<close>, and the check
  \<^verbatim>\<open>config.timeout <= 0\<close>, whose message is \<^verbatim>\<open>timeout must be positive\<close>, is false for
  \<^verbatim>\<open>NaN\<close>: with endpoint, access key id and secret given and a timeout of \<^verbatim>\<open>NaN\<close>, the
  constructor returns a client, and has instantiated a storage client whose request
  timeout is \<^verbatim>\<open>NaN\<close>. \<open>constructor_fails_iff\<close> is what the constructor does for every
  configuration.
\<close>

theorem constructor_accepts_NaN_timeout:
  "\<exists>client. new_FastlyStorageClient Map.empty (\<lambda>url. True)
               (Some (minimal_config\<lparr>cfg_timeout := Some NaN\<rparr>)) []
             = (Inr client, [client_s3Client client])
     \<and> timeout (client_config client) = NaN
     \<and> \<not> js_less (Num 0) (timeout (client_config client))
     \<and> requestTimeout (client_s3Client client) = NaN"
  by (simp add: new_FastlyStorageClient_def validateConfig_def isValidUrl_def mergeConfig_def
      nullish_def empty_config_def minimal_config_def js_or_def js_or_str_def truthy_def
      initializeS3Client_def Let_def)

section \<open>Attempts\<close>

lemma spacing_below: "a < 2 ^ 53 \<Longrightarrow> spacing a = 1"
  by (subst spacing.simps) simp

lemma round_to_double_below: "\<bar>x\<bar> < 2 ^ 53 \<Longrightarrow> round_to_double x = Num x"
  by (auto simp: round_to_double_def Let_def spacing_below nat_less_iff)

lemma spacing_at_two_to_53: "spacing 9007199254740992 = 2"
  by (subst spacing.simps) (simp add: spacing_below)

lemma spacing_above_two_to_53: "spacing 9007199254740993 = 2"
  by (subst spacing.simps) (simp add: spacing_below)

lemma round_to_double_at_two_to_53: "round_to_double 9007199254740992 = Num 9007199254740992"
  by (simp add: round_to_double_def Let_def spacing_at_two_to_53)

lemma round_to_double_above_two_to_53:
  "round_to_double 9007199254740993 = Num 9007199254740992"
  by (simp add: round_to_double_def Let_def spacing_above_two_to_53)

lemma js_add_one_exact:
  assumes "\<bar>n\<bar> < 2 ^ 53"
  shows "js_add (Num n) (Num 1) = Num (n + 1)"
proof (cases "n + 1 = 9007199254740992")
  case True
  then show ?thesis using round_to_double_at_two_to_53 by simp
next
  case False
  with assms have "\<bar>n + 1\<bar> < 2 ^ 53" by simp
  then show ?thesis by (simp add: round_to_double_below)
qed

lemma constructor_success:
  assumes "fst (new_FastlyStorageClient env parses arg created) = Inr client"
  shows "client_config client = mergeConfig env (nullish arg empty_config)
         \<and> client_s3Client client = fst (initializeS3Client (client_config client) created)
         \<and> snd (new_FastlyStorageClient env parses arg created) = created @ [client_s3Client client]
         \<and> validateConfig parses (client_config client) = Inr ()"
  using assms
  by (auto simp: new_FastlyStorageClient_def initializeS3Client_def Let_def split: sum.splits)

text \<open>
  C10, as worded: the attempt count is always maxRetries plus one. \<^verbatim>\<open>maxRetries + 1\<close> is
  an addition of doubles: a maxRetries of \<open>2 ^ 53 = 9007199254740992\<close> passes the
  validation, and the storage client is instantiated with the same number of attempts,
  \<open>2 ^ 53\<close>, since \<open>2 ^ 53 + 1\<close> is not a double.
\<close>

theorem maxAttempts_at_two_to_53_counterexample:
  "map_sum code (\<lambda>client. (maxRetries (client_config client), maxAttempts (client_s3Client client)))
     (fst (new_FastlyStorageClient Map.empty (\<lambda>url. True)
             (Some (minimal_config\<lparr>cfg_maxRetries := Some (Num 9007199254740992)\<rparr>)) []))
   = Inr (Num 9007199254740992, Num 9007199254740992)"
  by (simp add: new_FastlyStorageClient_def validateConfig_def isValidUrl_def mergeConfig_def
      nullish_def empty_config_def minimal_config_def js_or_def js_or_str_def truthy_def
      initializeS3Client_def Let_def round_to_double_above_two_to_53)

text \<open>
  C10, amended. The storage client is instantiated with \<^verbatim>\<open>maxAttempts\<close> equal to the sum
  of the merged maxRetries and one as JavaScript adds numbers: in
  \<^verbatim>\<open>_initializeS3Client\<close> for every configuration, and so in the storage client of every
  client the constructor returns. For an integer maxRetries of magnitude below \<open>2 ^ 53\<close>
  that sum is exactly maxRetries plus one. An explicit maxRetries of 0 is kept by the
  merge, and gives exactly one attempt.
\<close>

theorem maxAttempts_is_maxRetries_plus_one:
  "maxAttempts (fst (initializeS3Client cfg created)) = js_add (maxRetries cfg) (Num 1)
   \<and> (maxRetries cfg = Num n \<and> \<bar>n\<bar> < 2 ^ 53
        \<longrightarrow> maxAttempts (fst (initializeS3Client cfg created)) = Num (n + 1))
   \<and> (fst (new_FastlyStorageClient env parses arg created) = Inr client \<longrightarrow>
        maxAttempts (client_s3Client client) = js_add (maxRetries (client_config client)) (Num 1)
        \<and> client_config client = mergeConfig env (nullish arg empty_config)
        \<and> snd (new_FastlyStorageClient env parses arg created) = created @ [client_s3Client client])
   \<and> (fst (new_FastlyStorageClient env parses arg created) = Inr client
        \<and> maxRetries (client_config client) = Num n \<and> \<bar>n\<bar> < 2 ^ 53
        \<longrightarrow> maxAttempts (client_s3Client client) = Num (n + 1))
   \<and> (fst (new_FastlyStorageClient env parses (Some config) created) = Inr client_z
        \<and> cfg_maxRetries config = Some (Num 0) \<longrightarrow> maxAttempts (client_s3Client client_z) = Num 1)"
proof -
  have init: "maxAttempts (fst (initializeS3Client c cr)) = js_add (maxRetries c) (Num 1)" for c cr
    by (simp add: initializeS3Client_def Let_def)
  have exact: "maxAttempts (fst (initializeS3Client c cr)) = Num (n + 1)"
    if "maxRetries c = Num n" and "\<bar>n\<bar> < 2 ^ 53" for c cr
    using that js_add_one_exact[of n] init[of c cr] by simp
  have made: "maxAttempts (client_s3Client client)
        = js_add (maxRetries (client_config client)) (Num 1)
      \<and> client_config client = mergeConfig env (nullish arg empty_config)
      \<and> snd (new_FastlyStorageClient env parses arg created) = created @ [client_s3Client client]"
    if "fst (new_FastlyStorageClient env parses arg created) = Inr client"
    using constructor_success[OF that] by (simp add: init)
  have made_exact: "maxAttempts (client_s3Client client) = Num (n + 1)"
    if "fst (new_FastlyStorageClient env parses arg created) = Inr client"
      and "maxRetries (client_config client) = Num n" and "\<bar>n\<bar> < 2 ^ 53"
    using constructor_success[OF that(1)] exact[OF that(2,3)] by simp
  have zero: "maxAttempts (client_s3Client client_z) = Num 1"
    if "fst (new_FastlyStorageClient env parses (Some config) created) = Inr client_z"
      and "cfg_maxRetries config = Some (Num 0)"
  proof -
    from constructor_success[OF that(1)] that(2)
    have "maxRetries (client_config client_z) = Num 0"
      by (simp add: mergeConfig_def nullish_def)
    with constructor_success[OF that(1)] init[of "client_config client_z" created]
      js_add_one_exact[of 0]
    show ?thesis by simp
  qed
  from init exact made made_exact zero show ?thesis by blast
qed

theorem maxAttempts_is_maxRetries_plus_one_witness:
  "(\<exists>client. fst (new_FastlyStorageClient Map.empty (\<lambda>url. True)
                  (Some (minimal_config\<lparr>cfg_maxRetries := Some (Num 0)\<rparr>)) []) = Inr client
      \<and> maxAttempts (client_s3Client client) = Num 1)
   \<and> (\<exists>client. fst (new_FastlyStorageClient Map.empty (\<lambda>url. True) (Some minimal_config) [])
                  = Inr client
      \<and> maxRetries (client_config client) = Num 3
      \<and> maxAttempts (client_s3Client client) = Num 4)"
proof -
  obtain client where made: "fst (new_FastlyStorageClient Map.empty (\<lambda>url. True)
                  (Some (minimal_config\<lparr>cfg_maxRetries := Some (Num 0)\<rparr>)) []) = Inr client"
    by (simp add: new_FastlyStorageClient_def validateConfig_def isValidUrl_def mergeConfig_def
        nullish_def empty_config_def minimal_config_def js_or_def js_or_str_def truthy_def
        initializeS3Client_def Let_def)
  have zero: "cfg_maxRetries (minimal_config\<lparr>cfg_maxRetries := Some (Num 0)\<rparr>) = Some (Num 0)"
    by simp
  from maxAttempts_is_maxRetries_plus_one[where env = Map.empty and parses = "\<lambda>url. True"
      and config = "minimal_config\<lparr>cfg_maxRetries := Some (Num 0)\<rparr>" and created = "[]"
      and client_z = client] made zero
  have one: "maxAttempts (client_s3Client client) = Num 1"
    by blast
  obtain client_d where made_d: "fst (new_FastlyStorageClient Map.empty (\<lambda>url. True)
                  (Some minimal_config) []) = Inr client_d"
    by (simp add: new_FastlyStorageClient_def validateConfig_def isValidUrl_def mergeConfig_def
        nullish_def empty_config_def minimal_config_def js_or_def js_or_str_def truthy_def
        initializeS3Client_def Let_def)
  then have three: "maxRetries (client_config client_d) = Num 3"
    by (auto simp: new_FastlyStorageClient_def validateConfig_def isValidUrl_def mergeConfig_def
        nullish_def empty_config_def minimal_config_def js_or_def js_or_str_def truthy_def
        initializeS3Client_def Let_def)
  have small: "\<bar>3::int\<bar> < 2 ^ 53"
    by simp
  from maxAttempts_is_maxRetries_plus_one[where env = Map.empty and parses = "\<lambda>url. True"
      and arg = "Some minimal_config" and created = "[]" and client = client_d and n = 3]
    made_d three small
  have "maxAttempts (client_s3Client client_d) = Num (3 + 1)"
    by blast
  then have four: "maxAttempts (client_s3Client client_d) = Num 4"
    by simp
  from made one made_d three four show ?thesis by blast
qed

section \<open>Bucket names\<close>

lemma validateBucketName_examples:
  "validateBucketName ''valid-bucket'' = Inr ()"
  "validateBucketName ''my-bucket.01'' = Inr ()"
  "raised (validateBucketName ''my..bucket'') = Some (''INVALID_BUCKET_NAME'', None)"
  "raised (validateBucketName ''My-bucket'') = Some (''INVALID_BUCKET_NAME'', None)"
  by (simp_all add: validateBucketName_def bucket_name_pattern_def lower_alnum_def
      bucket_char_def invalid_bucket_name_def raised_def)

text \<open>
  What \<^verbatim>\<open>createBucket\<close> returns depends on the backend's answer to the command and on
  nothing else: \<^verbatim>\<open>validateBucketName\<close> has no caller.
\<close>

lemma createBucket_result:
  "createBucket send nm options = Inr () \<longleftrightarrow>
     (\<exists>response. send (CreateBucketCommand nm
         (case options of None \<Rightarrow> None | Some opts \<Rightarrow> bc_acl opts)
         (case options of None \<Rightarrow> None
          | Some opts \<Rightarrow> if truthy (bc_region opts) then bc_region opts else None)) = Inr response)"
  by (auto simp: createBucket_def createBucket_try_def catch_fromS3Error_def split: sum.splits)

text \<open>
  C9. A bucket name that fails the syntactic rules should make \<^verbatim>\<open>createBucket\<close> fail with
  \<^verbatim>\<open>INVALID_BUCKET_NAME\<close> before any request. \<^verbatim>\<open>validateBucketName\<close> rejects the name
  \<^verbatim>\<open>ab\<close> with that code, but \<^verbatim>\<open>createBucket\<close> does not call it: the command for \<^verbatim>\<open>ab\<close>
  is sent, and on a backend that accepts it \<^verbatim>\<open>createBucket\<close> succeeds.
\<close>

theorem createBucket_short_name_sent:
  "raised (validateBucketName ''ab'') = Some (''INVALID_BUCKET_NAME'', None)
   \<and> createBucket accepting ''ab'' None = Inr ()"
  by (simp add: validateBucketName_def invalid_bucket_name_def raised_def createBucket_def
      createBucket_try_def catch_fromS3Error_def accepting_def)

end
